theory Spec2Isabelle
  imports Complex_Main "HOL-Library.Word" "HOL-Library.Log_Nat" "HOL-Library.Monad_Syntax"
begin

unbundle bit_operations_syntax

section \<open>The stretch orchestrator of Rubber Band (src/StretcherImpl.cpp)\<close>

text \<open>
  A shallow embedding of \<^verbatim>\<open>RubberBandStretcher::Impl\<close>. Conventions:
  \<^item> a \<^verbatim>\<open>double\<close> or \<^verbatim>\<open>float\<close> is a \<^typ>\<open>real\<close>. In the sizing computation the arithmetic is
    exact; in \<^verbatim>\<open>getLatency\<close> every operation is rounded to double precision. Ratios are
    positive, as the interface requires;
  \<^item> a \<^verbatim>\<open>size_t\<close> is a \<^typ>\<open>nat\<close> and an \<^verbatim>\<open>int\<close> an \<^typ>\<open>int\<close>, without a width, except for the
    shift \<^verbatim>\<open>1 << bits\<close> of \<^verbatim>\<open>roundUp\<close> and the conversion \<^verbatim>\<open>int(...)\<close> of \<^verbatim>\<open>getLatency\<close>, which are
    computed in 32-bit \<^verbatim>\<open>int\<close> and are modelled with its range;
  \<^item> a function that may dereference a null pointer, overflow that shift or loop for ever
    returns an \<^typ>\<open>'a option\<close>, \<^term>\<open>None\<close> standing for "no defined result";
  \<^item> output on \<^verbatim>\<open>cerr\<close> that is not guarded by the debug level is a list of diagnostics in
    the state; the trace output guarded by \<^verbatim>\<open>m_debugLevel\<close> is left out;
  \<^item> threads, mutexes and conditions are left out: the model is the sequential behaviour.
\<close>

subsection \<open>Rounding up to a power of two\<close>

definition is_pow2 :: "nat \<Rightarrow> bool" where
  "is_pow2 v = (\<exists>k. v = 2 ^ k)"

text \<open>The loop \<^verbatim>\<open>while (value) { ++bits; value >>= 1; }\<close>.\<close>

function count_bits :: "nat \<Rightarrow> nat \<Rightarrow> nat" where
  "count_bits bits v = (if v \<noteq> 0 then count_bits (bits + 1) (v div 2) else bits)"
  by pat_completeness auto
termination
  by (relation "measure (\<lambda>(bits, v). v)") auto

declare count_bits.simps [simp del]

text \<open>
  \<^verbatim>\<open>1 << bits\<close> on \<^verbatim>\<open>int\<close>: the value \<open>2 ^ bits\<close> when it is representable in a 32-bit signed
  integer, no defined power of two otherwise.
\<close>

definition shl_int :: "nat \<Rightarrow> nat option" where
  "shl_int bits = (if bits < 31 then Some (2 ^ bits) else None)"

text \<open>
  \<^verbatim>\<open>if (!(value & (value - 1))) return value;\<close> then the bit count and the shift. On
  \<^typ>\<open>nat\<close>, \<open>0 - 1 = 0\<close> and \<open>0 AND 0 = 0\<close>, which agrees with the wrapped \<^verbatim>\<open>0 & (0 - 1)\<close>.
\<close>

definition roundUp :: "nat \<Rightarrow> nat option" where
  "roundUp v = (if v AND (v - 1) = 0 then Some v else shl_int (count_bits 0 v))"

subsection \<open>Conversions\<close>

text \<open>\<^verbatim>\<open>int(x)\<close> on a floating-point value truncates towards zero.\<close>

definition c_trunc :: "real \<Rightarrow> int" where
  "c_trunc x = (if 0 \<le> x then \<lfloor>x\<rfloor> else \<lceil>x\<rceil>)"

subsection \<open>Data model\<close>

datatype mode = JustCreated | Studying | Processing | Finished

text \<open>The option bits that the modelled functions test.\<close>

datatype option_flag =
  OptionProcessRealTime | OptionStretchPrecise | OptionTransientsSmooth
  | OptionThreadingNone | OptionWindowShort | OptionWindowLong

datatype diagnostic =
  CannotSetRatio | CannotSetPitchScale | CannotStudyAfterProcessing | CannotProcessAgain
  | WindowOptionsConflict | EnablingStretchPrecise | WritableZero
  | WindowAllocationInRT nat | ResamplerConstructionInRT

text \<open>
  Modelled from the spec: the ring buffer (RingBuffer.h is not part of the source at hand), a
  bounded FIFO of floats with \<open>write_space\<close>, \<open>read_space\<close>, \<open>peek(n)\<close>, \<open>skip(n)\<close> and
  \<open>zero(n)\<close>, which pre-fills \<open>n\<close> zeros as if written.
\<close>

record ring =
  ring_data :: "real list"
  ring_size :: nat

definition new_ring :: "nat \<Rightarrow> ring" where
  "new_ring n = \<lparr>ring_data = [], ring_size = n\<rparr>"

definition getReadSpace :: "ring \<Rightarrow> nat" where
  "getReadSpace rb = length (ring_data rb)"

definition getWriteSpace :: "ring \<Rightarrow> nat" where
  "getWriteSpace rb = ring_size rb - length (ring_data rb)"

definition ring_write :: "ring \<Rightarrow> real list \<Rightarrow> nat \<Rightarrow> ring" where
  "ring_write rb src n =
     rb\<lparr>ring_data := ring_data rb @ take (min n (getWriteSpace rb)) src\<rparr>"

definition ring_zero :: "ring \<Rightarrow> nat \<Rightarrow> ring" where
  "ring_zero rb n =
     rb\<lparr>ring_data := ring_data rb @ replicate (min n (getWriteSpace rb)) 0\<rparr>"

definition ring_peek :: "ring \<Rightarrow> nat \<Rightarrow> real list" where
  "ring_peek rb n = take n (ring_data rb) @ replicate (n - length (ring_data rb)) 0"

definition ring_skip :: "ring \<Rightarrow> nat \<Rightarrow> ring" where
  "ring_skip rb n = rb\<lparr>ring_data := drop n (ring_data rb)\<rparr>"

definition ring_reset :: "ring \<Rightarrow> ring" where
  "ring_reset rb = rb\<lparr>ring_data := []\<rparr>"

text \<open>
  Modelled from the spec: the per-channel data (StretcherChannelData is not part of the source
  at hand): input ring, output ring, the resampler with the size of its scratch buffer, and
  the counters \<open>inCount\<close>, \<open>outCount\<close>, \<open>inputSize\<close> (with \<open>-1\<close> for "unknown") and the
  \<open>draining\<close> flag. Scratch spectrum buffers are left out.
\<close>

record resampler_obj =
  rs_channels :: nat
  rs_maxBufferSize :: nat

record channel =
  inbuf :: ring
  outbuf :: ring
  inCount :: nat
  outCount :: nat
  inputSize :: int
  draining :: bool
  resampler :: "resampler_obj option"
  resamplebufSize :: nat
  cd_windowSize :: nat

text \<open>
  Modelled from the spec: the detection curves and the stretch calculator, external
  collaborators. A curve is stateful and resettable: its state is the list of
  spectra it has processed since it was made or reset.
\<close>

datatype curve_kind = Percussive | HighFrequency | Constant

record curve =
  curve_kind :: curve_kind
  curve_sampleRate :: nat
  curve_windowSize :: nat
  curve_seen :: "real list list"

record calculator =
  calc_sampleRate :: nat
  calc_increment :: nat
  calc_useHardPeaks :: bool

text \<open>
  What the class takes from outside: the platform queries of the constructor, the capacity
  that the channel data gives its input ring (from the window sizes, the window size and the
  output buffer size), the window, the FFT, the detection functions and the calculator.
\<close>

record env =
  threadingAvailable :: bool
  system_is_multiprocessor :: bool
  inbuf_capacity :: "nat set \<Rightarrow> nat \<Rightarrow> nat \<Rightarrow> nat"
  window_cut :: "nat \<Rightarrow> real list \<Rightarrow> real list"
  forwardMagnitude :: "nat \<Rightarrow> real list \<Rightarrow> real list"
  curve_df :: "curve \<Rightarrow> real list \<Rightarrow> nat \<Rightarrow> real"
  calculate :: "calculator \<Rightarrow> real \<Rightarrow> nat \<Rightarrow> real list \<Rightarrow> real list \<Rightarrow> int list"

text \<open>
  The members of \<^verbatim>\<open>Impl\<close>. The window cache \<^verbatim>\<open>m_windows\<close> is the set of its keys and
  \<^verbatim>\<open>m_window\<close>, \<^verbatim>\<open>m_studyFFT\<close> the size of the object pointed to (\<^term>\<open>None\<close> for a null pointer).
  \<^verbatim>\<open>m_channelData\<close> always has \<^verbatim>\<open>m_channels\<close> entries (only \<^verbatim>\<open>configure\<close> builds it), so a
  loop over \<^verbatim>\<open>c < m_channels\<close> is a map over the list.
\<close>

record impl =
  sampleRate :: nat
  channels :: nat
  timeRatio :: real
  pitchScale :: real
  windowSize :: nat
  increment :: nat
  outbufSize :: nat
  maxProcessSize :: nat
  expectedInputDuration :: nat
  threaded :: bool
  realtime :: bool
  options :: "option_flag set"
  mode :: mode
  windows :: "nat set"
  window :: "nat option"
  studyFFT :: "nat option"
  inputDuration :: nat
  phaseResetDf :: "real list"
  stretchDf :: "real list"
  outputIncrements :: "int list"
  phaseResetAudioCurve :: "curve option"
  stretchAudioCurve :: "curve option"
  stretchCalculator :: "calculator option"
  baseWindowSize :: nat
  rateMultiple :: real
  channelData :: "channel list"
  cerr :: "diagnostic list"

definition defaultIncrement :: nat where
  "defaultIncrement = 256"

definition defaultWindowSize :: nat where
  "defaultWindowSize = 2048"

definition getTimeRatio :: "impl \<Rightarrow> real" where
  "getTimeRatio s = timeRatio s"

definition getPitchScale :: "impl \<Rightarrow> real" where
  "getPitchScale s = pitchScale s"

definition getEffectiveRatio :: "impl \<Rightarrow> real" where
  "getEffectiveRatio s = timeRatio s * pitchScale s"

subsection \<open>calculateSizes\<close>

text \<open>
  The loop of the realtime branch for \<open>r \<ge> 1\<close>:
  \<^verbatim>\<open>while (outputIncrement > 1024 && inputIncrement > 1) {
      inputIncrement /= 2; outputIncrement = lrint(ceil(inputIncrement * r)); }\<close>
\<close>

function rt_halve :: "real \<Rightarrow> nat \<Rightarrow> nat \<Rightarrow> nat \<times> nat" where
  "rt_halve r inputIncrement outputIncrement =
     (if outputIncrement > 1024 \<and> inputIncrement > 1
      then rt_halve r (inputIncrement div 2) (nat \<lceil>real (inputIncrement div 2) * r\<rceil>)
      else (inputIncrement, outputIncrement))"
  by pat_completeness auto
termination
  by (relation "measure (\<lambda>(r, i, oi). i)") auto

declare rt_halve.simps [simp del]

text \<open>
  The loop of the offline branch for \<open>r \<ge> 1\<close>:
  \<^verbatim>\<open>while (outputIncrement > 1024 && inputIncrement > 1) {
      outputIncrement /= 2; inputIncrement = int(outputIncrement / r); }\<close>
\<close>

function offline_halve :: "real \<Rightarrow> nat \<Rightarrow> nat \<Rightarrow> nat \<times> nat" where
  "offline_halve r inputIncrement outputIncrement =
     (if outputIncrement > 1024 \<and> inputIncrement > 1
      then offline_halve r (nat (c_trunc (real (outputIncrement div 2) / r))) (outputIncrement div 2)
      else (inputIncrement, outputIncrement))"
  by pat_completeness auto
termination
  by (relation "measure (\<lambda>(r, i, oi). oi)") auto

declare offline_halve.simps [simp del]

text \<open>\<^verbatim>\<open>while (windowSize < 8192) windowSize *= 2;\<close> does not end from 0.\<close>

partial_function (option) grow_window :: "nat \<Rightarrow> nat option" where
  "grow_window w = (if w < 8192 then grow_window (w * 2) else Some w)"

declare grow_window.simps [code]

text \<open>\<^verbatim>\<open>while (inputIncrement >= 512) inputIncrement /= 2;\<close>\<close>

function below_512 :: "nat \<Rightarrow> nat" where
  "below_512 inputIncrement =
     (if inputIncrement \<ge> 512 then below_512 (inputIncrement div 2) else inputIncrement)"
  by pat_completeness auto
termination
  by (relation "measure (\<lambda>i. i)") auto

declare below_512.simps [simp del]

text \<open>
  \<^verbatim>\<open>while (inputIncrement * 4 > m_expectedInputDuration && inputIncrement > 1)
      inputIncrement /= 2;\<close>
\<close>

function fit_duration :: "nat \<Rightarrow> nat \<Rightarrow> nat" where
  "fit_duration expected inputIncrement =
     (if inputIncrement * 4 > expected \<and> inputIncrement > 1
      then fit_duration expected (inputIncrement div 2) else inputIncrement)"
  by pat_completeness auto
termination
  by (relation "measure (\<lambda>(e, i). i)") auto

declare fit_duration.simps [simp del]

text \<open>
  The squashing case \<open>r < 1\<close>, the same text in both modes: from the input increment and
  the window size so far to (inputIncrement, outputIncrement, windowSize).
\<close>

definition squash_sizes :: "real \<Rightarrow> nat \<Rightarrow> nat \<Rightarrow> (nat \<times> nat \<times> nat) option" where
  "squash_sizes r inputIncrement windowSize0 =
     (let outputIncrement = nat (c_trunc (real_of_int \<lfloor>real inputIncrement * r\<rfloor>)) in
      if outputIncrement < 1
      then do {
        inputIncrement' \<leftarrow> roundUp (nat \<lceil>1 / r\<rceil>);
        Some (inputIncrement', 1, inputIncrement' * 4)
      }
      else Some (inputIncrement, outputIncrement, windowSize0))"

text \<open>
  \<^verbatim>\<open>windowSize = std::max(windowSize, roundUp(outputIncrement * 6));
  if (r > 5) while (windowSize < 8192) windowSize *= 2;\<close>
\<close>

definition stretch_window :: "real \<Rightarrow> nat \<Rightarrow> nat \<Rightarrow> nat option" where
  "stretch_window r windowSize0 outputIncrement = do {
     p \<leftarrow> roundUp (outputIncrement * 6);
     if r > 5 then grow_window (max windowSize0 p) else Some (max windowSize0 p)
   }"

text \<open>The realtime branch: a fixed input increment.\<close>

definition rt_sizes :: "real \<Rightarrow> real \<Rightarrow> nat \<Rightarrow> (nat \<times> nat \<times> nat) option" where
  "rt_sizes r rateMult windowSize0 = do {
     inputIncrement \<leftarrow> roundUp (nat (c_trunc (real defaultIncrement * rateMult)));
     if r < 1 then squash_sizes r inputIncrement windowSize0
     else (case rt_halve r inputIncrement (nat (c_trunc (real_of_int \<lceil>real inputIncrement * r\<rceil>))) of
             (inputIncrement', outputIncrement) \<Rightarrow> do {
               w \<leftarrow> stretch_window r windowSize0 outputIncrement;
               Some (inputIncrement', outputIncrement, w)
             })
   }"

text \<open>The offline branch: a variable increment.\<close>

definition offline_sizes :: "real \<Rightarrow> nat \<Rightarrow> (nat \<times> nat \<times> nat) option" where
  "offline_sizes r windowSize0 =
     (if r < 1 then squash_sizes r (below_512 (windowSize0 div 4)) windowSize0
      else (case offline_halve r (nat (c_trunc (real (windowSize0 div 6) / r))) (windowSize0 div 6) of
              (inputIncrement, outputIncrement) \<Rightarrow> do {
                w \<leftarrow> stretch_window r windowSize0 outputIncrement;
                Some (inputIncrement, outputIncrement, w)
              }))"

definition calculateSizes :: "impl \<Rightarrow> impl option" where
  "calculateSizes s = do {
     (inputIncrement, outputIncrement, w) \<leftarrow>
       (if realtime s then rt_sizes (getEffectiveRatio s) (rateMultiple s) (baseWindowSize s)
        else offline_sizes (getEffectiveRatio s) (baseWindowSize s));
     let inputIncrement' =
           (if expectedInputDuration s > 0
            then fit_duration (expectedInputDuration s) inputIncrement else inputIncrement);
         maxProcessSize' = (if w > maxProcessSize s then w else maxProcessSize s);
         outbufSize' =
           nat \<lceil>max (real maxProcessSize' / pitchScale s)
                     (real w * 2 * (if timeRatio s > 1 then timeRatio s else 1))\<rceil>
     in Some (s\<lparr>windowSize := w, increment := inputIncrement', maxProcessSize := maxProcessSize',
                outbufSize := (if realtime s then outbufSize' * 16
                               else if threaded s then outbufSize' * 16 else outbufSize')\<rparr>)
   }"

subsection \<open>Accessors\<close>

text \<open>
  Double precision for \<^verbatim>\<open>getLatency\<close>: a result is rounded to the nearest number with a
  53-bit significand, ties to the even significand. \<open>binade y\<close> is the exponent \<open>e\<close> with
  \<open>2 ^ e \<le> y < 2 ^ (e + 1)\<close> for \<open>y > 0\<close>. The exponent range is not modelled: a quotient
  below it vanishes in the addition of 1 as it does here, and one above it is far beyond
  the range of \<^verbatim>\<open>int\<close>.
\<close>

definition pow2 :: "int \<Rightarrow> real" where
  "pow2 k = (if 0 \<le> k then 2 ^ nat k else 1 / 2 ^ nat (- k))"

definition binade :: "real \<Rightarrow> int" where
  "binade y =
     (if 1 \<le> y then int (count_bits 0 (nat \<lfloor>y\<rfloor>)) - 1
      else - int (count_bits 0 (nat \<lceil>1 / y\<rceil> - 1)))"

definition round_even :: "real \<Rightarrow> int" where
  "round_even t =
     (if t - real_of_int \<lfloor>t\<rfloor> < 1 / 2 then \<lfloor>t\<rfloor>
      else if t - real_of_int \<lfloor>t\<rfloor> > 1 / 2 then \<lfloor>t\<rfloor> + 1
      else if even \<lfloor>t\<rfloor> then \<lfloor>t\<rfloor> else \<lfloor>t\<rfloor> + 1)"

definition round_double :: "real \<Rightarrow> real" where
  "round_double y =
     (if y = 0 then 0
      else sgn y * real_of_int (round_even (\<bar>y\<bar> * pow2 (52 - binade \<bar>y\<bar>)))
             * pow2 (binade \<bar>y\<bar> - 52))"

text \<open>
  \<^verbatim>\<open>int(x)\<close> on a \<^verbatim>\<open>double\<close>: the truncated value when a 32-bit \<^verbatim>\<open>int\<close> can hold it, no defined
  result otherwise.
\<close>

definition to_int32 :: "real \<Rightarrow> int option" where
  "to_int32 x = (if - (2 ^ 31) \<le> c_trunc x \<and> c_trunc x < 2 ^ 31 then Some (c_trunc x) else None)"

text \<open>
  \<^verbatim>\<open>if (!m_realtime) return 0; return int((m_windowSize/2) / m_pitchScale + 1);\<close>
  The integer half is converted to \<^verbatim>\<open>double\<close>, divided and incremented in \<^verbatim>\<open>double\<close>, and
  converted to \<^verbatim>\<open>int\<close>. A division by zero gives no finite value to convert. A negative
  \<^verbatim>\<open>int\<close> would convert to \<^verbatim>\<open>size_t\<close> modulo its width, which the model does not fix: no result.
\<close>

definition getLatency :: "impl \<Rightarrow> nat option" where
  "getLatency s =
     (if \<not> realtime s then Some 0
      else if pitchScale s = 0 then None
      else (case to_int32 (round_double
                     (round_double (round_double (real (windowSize s div 2)) / pitchScale s) + 1)) of
              None \<Rightarrow> None
            | Some t \<Rightarrow> if 0 \<le> t then Some (nat t) else None))"

subsection \<open>Channel data\<close>

text \<open>
  Modelled from the spec: the operations of the per-channel data that the orchestrator
  calls (StretcherChannelData is not part of the source at hand). A new channel has empty
  rings, zero counters, an unknown input size and no resampler; \<open>reset\<close> empties the rings and
  zeroes the counters; \<open>setWindowSize\<close> switches the window size; \<open>setOutbufSize\<close> grows the
  output ring.
\<close>

definition new_ChannelData :: "env \<Rightarrow> nat set \<Rightarrow> nat \<Rightarrow> nat \<Rightarrow> channel" where
  "new_ChannelData e sizes w ob =
     \<lparr>inbuf = new_ring (inbuf_capacity e sizes w ob), outbuf = new_ring ob,
      inCount = 0, outCount = 0, inputSize = - 1, draining = False,
      resampler = None, resamplebufSize = 0, cd_windowSize = w\<rparr>"

definition cd_reset :: "channel \<Rightarrow> channel" where
  "cd_reset cd =
     cd\<lparr>inbuf := ring_reset (inbuf cd), outbuf := ring_reset (outbuf cd),
        inCount := 0, outCount := 0, inputSize := - 1, draining := False\<rparr>"

definition cd_setWindowSize :: "nat \<Rightarrow> channel \<Rightarrow> channel" where
  "cd_setWindowSize w cd = cd\<lparr>cd_windowSize := w\<rparr>"

definition cd_setOutbufSize :: "nat \<Rightarrow> channel \<Rightarrow> channel" where
  "cd_setOutbufSize ob cd = cd\<lparr>outbuf := (outbuf cd)\<lparr>ring_size := max (ring_size (outbuf cd)) ob\<rparr>\<rparr>"

text \<open>\<^verbatim>\<open>m_channelData[c]->reset(); m_channelData[c]->inbuf->zero(m_windowSize/2);\<close>\<close>

definition cd_prefill :: "nat \<Rightarrow> channel \<Rightarrow> channel" where
  "cd_prefill w cd = (let cd' = cd_reset cd in cd'\<lparr>inbuf := ring_zero (inbuf cd') (w div 2)\<rparr>)"

definition new_curve :: "curve_kind \<Rightarrow> nat \<Rightarrow> nat \<Rightarrow> curve" where
  "new_curve k rate w =
     \<lparr>curve_kind = k, curve_sampleRate = rate, curve_windowSize = w, curve_seen = []\<rparr>"

definition curve_reset :: "curve \<Rightarrow> curve" where
  "curve_reset c = c\<lparr>curve_seen := []\<rparr>"

definition curve_setWindowSize :: "nat \<Rightarrow> curve \<Rightarrow> curve" where
  "curve_setWindowSize w c = c\<lparr>curve_windowSize := w\<rparr>"

subsection \<open>calculateStretch\<close>

text \<open>
  The calculator is called through \<^verbatim>\<open>m_stretchCalculator\<close> without a null check. An empty
  \<^verbatim>\<open>m_outputIncrements\<close> is assigned, a non-empty one is appended to.
\<close>

definition calculateStretch :: "env \<Rightarrow> impl \<Rightarrow> impl option" where
  "calculateStretch e s =
     (case stretchCalculator s of
        None \<Rightarrow> None
      | Some calc \<Rightarrow>
          (let increments = calculate e calc (getEffectiveRatio s) (inputDuration s)
                              (phaseResetDf s) (stretchDf s)
           in Some (s\<lparr>outputIncrements :=
                        (if outputIncrements s = [] then increments
                         else outputIncrements s @ increments)\<rparr>)))"

subsection \<open>configure and reconfigure\<close>

text \<open>
  The resampler loop of \<^verbatim>\<open>configure\<close>: a channel that has a resampler is skipped.
\<close>

definition configure_resampler :: "impl \<Rightarrow> channel \<Rightarrow> channel" where
  "configure_resampler s cd =
     (case resampler cd of
        Some _ \<Rightarrow> cd
      | None \<Rightarrow>
          (let rbs = nat \<lceil>(real (increment s) * timeRatio s * 2) / pitchScale s\<rceil>;
               rbs' = (if rbs < increment s * 16 then increment s * 16 else rbs)
           in cd\<lparr>resampler := Some \<lparr>rs_channels = 1, rs_maxBufferSize = 4096 * 16\<rparr>,
                 resamplebufSize := rbs'\<rparr>))"

definition configure :: "env \<Rightarrow> impl \<Rightarrow> impl option" where
  "configure e s0 = do {
     let prevWindowSize = (if windows s0 = {} then 0 else windowSize s0);
     let prevOutbufSize = (if windows s0 = {} then 0 else outbufSize s0);
     s \<leftarrow> calculateSizes s0;
     let windowSizeChanged = (prevWindowSize \<noteq> windowSize s);
     let outbufSizeChanged = (prevOutbufSize \<noteq> outbufSize s);
     let windowSizes =
           (if realtime s
            then {baseWindowSize s, baseWindowSize s * 2, baseWindowSize s * 4} else {})
           \<union> {windowSize s};
     let s = (if windowSizeChanged
              then s\<lparr>windows := windows s \<union> windowSizes, window := Some (windowSize s)\<rparr>
              else s);
     let s = (if windowSizeChanged \<or> outbufSizeChanged
              then s\<lparr>channelData :=
                        replicate (channels s)
                          (new_ChannelData e windowSizes (windowSize s) (outbufSize s))\<rparr>
              else s);
     let s = (if \<not> realtime s \<and> windowSizeChanged
              then s\<lparr>studyFFT := Some (windowSize s)\<rparr> else s);
     let s = (if pitchScale s \<noteq> 1 \<or> realtime s
              then s\<lparr>channelData := map (configure_resampler s) (channelData s)\<rparr> else s);
     let s = s\<lparr>phaseResetAudioCurve :=
                  Some (new_curve Percussive (sampleRate s) (windowSize s))\<rparr>;
     let s = (if \<not> realtime s
              then s\<lparr>stretchAudioCurve :=
                        Some (new_curve
                                (if OptionStretchPrecise \<notin> options s then HighFrequency
                                 else Constant)
                                (sampleRate s) (windowSize s))\<rparr>
              else s);
     let s = s\<lparr>stretchCalculator :=
                  Some \<lparr>calc_sampleRate = sampleRate s, calc_increment = increment s,
                        calc_useHardPeaks = (OptionTransientsSmooth \<notin> options s)\<rparr>,
                inputDuration := 0\<rparr>;
     Some (if \<not> realtime s
           then s\<lparr>channelData := map (cd_prefill (windowSize s)) (channelData s)\<rparr>
           else s)
   }"

text \<open>The resampler loop of \<^verbatim>\<open>reconfigure\<close>, which warns before it allocates.\<close>

fun reconfigure_resamplers ::
  "impl \<Rightarrow> channel list \<Rightarrow> channel list \<times> diagnostic list" where
  "reconfigure_resamplers s [] = ([], [])"
| "reconfigure_resamplers s (cd # cds) =
     (case reconfigure_resamplers s cds of
        (cds', ds) \<Rightarrow>
          (case resampler cd of
             Some _ \<Rightarrow> (cd # cds', ds)
           | None \<Rightarrow>
               (cd\<lparr>resampler := Some \<lparr>rs_channels = 1, rs_maxBufferSize = windowSize s\<rparr>,
                   resamplebufSize :=
                     nat \<lceil>(real (increment s) * timeRatio s * 2) / pitchScale s\<rceil>\<rparr> # cds',
                ResamplerConstructionInRT # ds)))"

definition reconfigure :: "env \<Rightarrow> impl \<Rightarrow> impl option" where
  "reconfigure e s0 = do {
     s \<leftarrow> (if \<not> realtime s0
           then do {
             s1 \<leftarrow> (if mode s0 = Studying
                    then do {
                      s2 \<leftarrow> calculateStretch e s0;
                      Some (s2\<lparr>phaseResetDf := [], stretchDf := [], inputDuration := 0\<rparr>)
                    }
                    else Some s0);
             configure e s1
           }
           else Some s0);
     let prevWindowSize = windowSize s;
     let prevOutbufSize = outbufSize s;
     s \<leftarrow> calculateSizes s;
     let s = (if windowSize s \<noteq> prevWindowSize
              then (let s' = (if windowSize s \<notin> windows s
                              then s\<lparr>cerr := cerr s @ [WindowAllocationInRT (windowSize s)],
                                     windows := insert (windowSize s) (windows s)\<rparr>
                              else s)
                    in s'\<lparr>window := Some (windowSize s'),
                          channelData := map (cd_setWindowSize (windowSize s')) (channelData s')\<rparr>)
              else s);
     let s = (if outbufSize s \<noteq> prevOutbufSize
              then s\<lparr>channelData := map (cd_setOutbufSize (outbufSize s)) (channelData s)\<rparr>
              else s);
     let s = (if pitchScale s \<noteq> 1
              then (case reconfigure_resamplers s (channelData s) of
                      (cds, ds) \<Rightarrow> s\<lparr>channelData := cds, cerr := cerr s @ ds\<rparr>)
              else s);
     if windowSize s \<noteq> prevWindowSize
     then (case phaseResetAudioCurve s of
             None \<Rightarrow> None
           | Some c \<Rightarrow> Some (s\<lparr>phaseResetAudioCurve := Some (curve_setWindowSize (windowSize s) c)\<rparr>))
     else Some s
   }"

subsection \<open>Construction, reset and the ratio setters\<close>

definition new_Impl ::
  "env \<Rightarrow> nat \<Rightarrow> nat \<Rightarrow> option_flag set \<Rightarrow> real \<Rightarrow> real \<Rightarrow> impl option" where
  "new_Impl e rate nchannels opts initialTimeRatio initialPitchScale = do {
     let rateMult = (if real rate / 48000 < 1 then 1 else real rate / 48000);
     base \<leftarrow> roundUp (nat (c_trunc (real defaultWindowSize * rateMult)));
     let s = \<lparr>sampleRate = rate, channels = nchannels, timeRatio = initialTimeRatio,
              pitchScale = initialPitchScale, windowSize = defaultWindowSize,
              increment = defaultIncrement, outbufSize = defaultWindowSize * 2,
              maxProcessSize = defaultWindowSize, expectedInputDuration = 0,
              threaded = False, realtime = False, options = opts, mode = JustCreated,
              windows = {}, window = None, studyFFT = None, inputDuration = 0,
              phaseResetDf = [], stretchDf = [], outputIncrements = [],
              phaseResetAudioCurve = None, stretchAudioCurve = None,
              stretchCalculator = None, baseWindowSize = base, rateMultiple = rateMult,
              channelData = [], cerr = []\<rparr>;
     let s = (if OptionWindowShort \<in> opts \<or> OptionWindowLong \<in> opts
              then (let s' = (if OptionWindowShort \<in> opts \<and> OptionWindowLong \<in> opts
                              then s\<lparr>cerr := cerr s @ [WindowOptionsConflict]\<rparr>
                              else if OptionWindowShort \<in> opts
                              then s\<lparr>baseWindowSize := baseWindowSize s div 2\<rparr>
                              else s\<lparr>baseWindowSize := baseWindowSize s * 2\<rparr>)
                    in s'\<lparr>windowSize := baseWindowSize s', outbufSize := baseWindowSize s' * 2,
                          maxProcessSize := baseWindowSize s'\<rparr>)
              else s);
     let s = (if OptionProcessRealTime \<in> options s
              then (if OptionStretchPrecise \<notin> options s
                    then s\<lparr>realtime := True, cerr := cerr s @ [EnablingStretchPrecise],
                           options := insert OptionStretchPrecise (options s)\<rparr>
                    else s\<lparr>realtime := True\<rparr>)
              else s);
     let s = (if channels s > 1 \<and> \<not> realtime s \<and> OptionThreadingNone \<notin> options s
                 \<and> threadingAvailable e \<and> system_is_multiprocessor e
              then s\<lparr>threaded := True\<rparr> else s);
     configure e s
   }"

text \<open>
  \<^verbatim>\<open>reset\<close> replaces every channel by \<^verbatim>\<open>new ChannelData(m_windowSize, m_outbufSize)\<close>, sets
  the mode, resets the curves that exist and zeroes \<^verbatim>\<open>m_inputDuration\<close>.
\<close>

definition reset :: "env \<Rightarrow> impl \<Rightarrow> impl" where
  "reset e s =
     s\<lparr>channelData := map (\<lambda>_. new_ChannelData e {} (windowSize s) (outbufSize s)) (channelData s),
       mode := JustCreated,
       phaseResetAudioCurve := map_option curve_reset (phaseResetAudioCurve s),
       stretchAudioCurve := map_option curve_reset (stretchAudioCurve s),
       inputDuration := 0\<rparr>"

definition setTimeRatio :: "env \<Rightarrow> real \<Rightarrow> impl \<Rightarrow> impl option" where
  "setTimeRatio e ratio s =
     (if \<not> realtime s \<and> (mode s = Studying \<or> mode s = Processing)
      then Some (s\<lparr>cerr := cerr s @ [CannotSetRatio]\<rparr>)
      else if ratio = timeRatio s then Some s
      else reconfigure e (s\<lparr>timeRatio := ratio\<rparr>))"

definition setPitchScale :: "env \<Rightarrow> real \<Rightarrow> impl \<Rightarrow> impl option" where
  "setPitchScale e fs s =
     (if \<not> realtime s \<and> (mode s = Studying \<or> mode s = Processing)
      then Some (s\<lparr>cerr := cerr s @ [CannotSetPitchScale]\<rparr>)
      else if fs = pitchScale s then Some s
      else reconfigure e (s\<lparr>pitchScale := fs\<rparr>))"

subsection \<open>study\<close>

text \<open>
  The mixdown: \<^verbatim>\<open>input[0][i]\<close>, plus \<^verbatim>\<open>input[c][i]\<close> for the other channels, divided by the
  number of channels. The caller passes \<^verbatim>\<open>m_channels\<close> rows of at least \<^verbatim>\<open>samples\<close> samples.
\<close>

definition mixdown_of :: "real list list \<Rightarrow> nat \<Rightarrow> nat \<Rightarrow> real list" where
  "mixdown_of input samples n =
     map (\<lambda>i. (input ! 0 ! i + (\<Sum>c\<leftarrow>[1..<n]. input ! c ! i)) / real n) [0..<samples]"

text \<open>
  One analysis chunk: peek a window, cut it, take the magnitude spectrum, feed both curves,
  add the increment to the input duration and skip the increment. \<^verbatim>\<open>m_window\<close>,
  \<^verbatim>\<open>m_studyFFT\<close> and the curves are used without a null check.
\<close>

definition study_chunk :: "env \<Rightarrow> impl \<Rightarrow> channel \<Rightarrow> channel list \<Rightarrow> impl option" where
  "study_chunk e s cd cds = do {
     wn \<leftarrow> window s;
     fft \<leftarrow> studyFFT s;
     pc \<leftarrow> phaseResetAudioCurve s;
     sc \<leftarrow> stretchAudioCurve s;
     let fltbuf = forwardMagnitude e fft (window_cut e wn (ring_peek (inbuf cd) (windowSize s)));
     Some (s\<lparr>phaseResetDf := phaseResetDf s @ [curve_df e pc fltbuf (increment s)],
             phaseResetAudioCurve := Some (pc\<lparr>curve_seen := curve_seen pc @ [fltbuf]\<rparr>),
             stretchDf := stretchDf s @ [curve_df e sc fltbuf (increment s)],
             stretchAudioCurve := Some (sc\<lparr>curve_seen := curve_seen sc @ [fltbuf]\<rparr>),
             inputDuration := inputDuration s + increment s,
             channelData := cd\<lparr>inbuf := ring_skip (inbuf cd) (increment s)\<rparr> # cds\<rparr>)
   }"

text \<open>
  The inner loop, on channel 0:
  \<^verbatim>\<open>while ((inbuf.getReadSpace() >= m_windowSize) ||
         (final && (inbuf.getReadSpace() >= m_windowSize/2)))\<close>.
  It does not end when the increment is 0.
\<close>

partial_function (option) study_chunks :: "env \<Rightarrow> bool \<Rightarrow> impl \<Rightarrow> impl option" where
  "study_chunks e final s =
     (case channelData s of
        [] \<Rightarrow> None
      | cd # cds \<Rightarrow>
          (if getReadSpace (inbuf cd) \<ge> windowSize s
              \<or> (final \<and> getReadSpace (inbuf cd) \<ge> windowSize s div 2)
           then Option.bind (study_chunk e s cd cds) (study_chunks e final)
           else Some s))"

declare study_chunks.simps [code]

text \<open>
  The outer loop \<^verbatim>\<open>while (consumed < samples)\<close>: write what the ring has space for, warn
  when that is nothing, then run the inner loop.
\<close>

partial_function (option) study_loop ::
  "env \<Rightarrow> real list \<Rightarrow> nat \<Rightarrow> bool \<Rightarrow> nat \<Rightarrow> impl \<Rightarrow> impl option" where
  "study_loop e mixdown samples final consumed s =
     (if consumed < samples
      then (case channelData s of
              [] \<Rightarrow> None
            | cd # cds \<Rightarrow>
                (if min (getWriteSpace (inbuf cd)) (samples - consumed) = 0
                 then Option.bind (study_chunks e final (s\<lparr>cerr := cerr s @ [WritableZero]\<rparr>))
                        (study_loop e mixdown samples final consumed)
                 else Option.bind
                        (study_chunks e final
                           (s\<lparr>channelData :=
                                cd\<lparr>inbuf := ring_write (inbuf cd) (drop consumed mixdown)
                                                (min (getWriteSpace (inbuf cd)) (samples - consumed))\<rparr>
                                # cds\<rparr>))
                        (study_loop e mixdown samples final
                           (consumed + min (getWriteSpace (inbuf cd)) (samples - consumed)))))
      else Some s)"

declare study_loop.simps [code]

text \<open>
  The end of \<^verbatim>\<open>study\<close> on the final call:
  \<^verbatim>\<open>int rs = inbuf.getReadSpace(); m_inputDuration += rs;
  if (m_inputDuration > m_windowSize/2) m_inputDuration -= m_windowSize/2;\<close>
\<close>

definition study_finish :: "impl \<Rightarrow> impl option" where
  "study_finish s =
     (case channelData s of
        [] \<Rightarrow> None
      | cd # cds \<Rightarrow>
          (let d = inputDuration s + getReadSpace (inbuf cd)
           in Some (s\<lparr>inputDuration :=
                        (if d > windowSize s div 2 then d - windowSize s div 2 else d)\<rparr>)))"

definition study :: "env \<Rightarrow> real list list \<Rightarrow> nat \<Rightarrow> bool \<Rightarrow> impl \<Rightarrow> impl option" where
  "study e input samples final s =
     (if realtime s then Some s
      else if mode s = Processing \<or> mode s = Finished
      then Some (s\<lparr>cerr := cerr s @ [CannotStudyAfterProcessing]\<rparr>)
      else do {
        s' \<leftarrow> study_loop e
                (if channels s > 1 \<or> final then mixdown_of input samples (channels s)
                 else input ! 0)
                samples final 0 (s\<lparr>mode := Studying\<rparr>);
        if final then study_finish s' else Some s'
      })"

subsection \<open>The start of process\<close>

text \<open>
  \<^verbatim>\<open>process\<close> up to its consumption loop: the rejection after the final chunk, and on the
  first call the schedule (when coming from \<^verbatim>\<open>Studying\<close>), the reset and pre-fill of every
  channel and the change of mode. The consumption loop calls \<^verbatim>\<open>processChunks\<close> and
  \<^verbatim>\<open>processOneChunk\<close>, which are defined elsewhere, and is not modelled.
\<close>

definition process_begin :: "env \<Rightarrow> impl \<Rightarrow> impl option" where
  "process_begin e s =
     (if mode s = Finished then Some (s\<lparr>cerr := cerr s @ [CannotProcessAgain]\<rparr>)
      else if mode s = JustCreated \<or> mode s = Studying
      then do {
        s1 \<leftarrow> (if mode s = Studying then calculateStretch e s else Some s);
        Some (s1\<lparr>channelData := map (cd_prefill (windowSize s1)) (channelData s1),
                 mode := Processing\<rparr>)
      }
      else Some s)"

subsection \<open>getSamplesRequired and consumeChannel\<close>

fun samples_required_loop :: "nat \<Rightarrow> channel list \<Rightarrow> nat \<Rightarrow> nat" where
  "samples_required_loop w [] reqd = reqd"
| "samples_required_loop w (cd # cds) reqd =
     (let rs = getReadSpace (inbuf cd) in
      if rs < w \<and> \<not> draining cd
      then (if inputSize cd = - 1
            then samples_required_loop w cds (if w - rs > reqd then w - rs else reqd)
            else if rs = 0
            then samples_required_loop w cds (if w > reqd then w else reqd)
            else samples_required_loop w cds reqd)
      else samples_required_loop w cds reqd)"

definition getSamplesRequired :: "impl \<Rightarrow> nat" where
  "getSamplesRequired s = samples_required_loop (windowSize s) (channelData s) 0"

text \<open>
  The loop of \<^verbatim>\<open>consumeChannel\<close>, on the channel's data: the channel and the count returned.
\<close>

function consume_loop :: "channel \<Rightarrow> real list \<Rightarrow> nat \<Rightarrow> nat \<Rightarrow> channel \<times> nat" where
  "consume_loop cd input samples consumed =
     (if consumed < samples
      then (let writable = min (getWriteSpace (inbuf cd)) (samples - consumed) in
            if writable = 0 then (cd, consumed)
            else consume_loop
                   (cd\<lparr>inbuf := ring_write (inbuf cd) (drop consumed input) writable,
                       inCount := inCount cd + writable\<rparr>)
                   input samples (consumed + writable))
      else (cd, samples))"
  by pat_completeness auto
termination
  by (relation "measure (\<lambda>(cd, input, samples, consumed). samples - consumed)") auto

declare consume_loop.simps [simp del]

text \<open>An index \<open>c\<close> outside \<^verbatim>\<open>m_channelData\<close> has no defined result.\<close>

definition consumeChannel :: "nat \<Rightarrow> real list \<Rightarrow> nat \<Rightarrow> impl \<Rightarrow> (impl \<times> nat) option" where
  "consumeChannel c input samples s =
     (if c < length (channelData s)
      then (case consume_loop (channelData s ! c) input samples 0 of
              (cd', n) \<Rightarrow> Some (s\<lparr>channelData := (channelData s)[c := cd']\<rparr>, n))
      else None)"

subsection \<open>The statements to compare with\<close>


text \<open>
  What one channel requires, as the specification words it: \<open>windowSize - read_space\<close> when
  short of a window, not draining and the input size unknown; \<open>windowSize\<close> when short, not
  draining, the input size known and the ring empty; nothing otherwise.
\<close>

definition channel_requirement :: "nat \<Rightarrow> channel \<Rightarrow> nat" where
  "channel_requirement w cd =
     (if getReadSpace (inbuf cd) < w \<and> \<not> draining cd
      then (if inputSize cd = - 1 then w - getReadSpace (inbuf cd)
            else if getReadSpace (inbuf cd) = 0 then w else 0)
      else 0)"

subsection \<open>Example data\<close>

text \<open>
  An environment to run the model in: a window and an FFT that keep the samples, flat
  detection functions and a calculator that schedules the input increment for every chunk
  and once more.
\<close>

definition example_env :: env where
  "example_env =
     \<lparr>threadingAvailable = True, system_is_multiprocessor = True,
      inbuf_capacity = (\<lambda>sizes w ob. max (w * 2) ob),
      window_cut = (\<lambda>n xs. xs),
      forwardMagnitude = (\<lambda>n xs. take (n div 2 + 1) xs),
      curve_df = (\<lambda>c mag inc. 0),
      calculate = (\<lambda>calc r d p st. replicate (Suc (length p)) (int (calc_increment calc)))\<rparr>"

text \<open>
  The stretcher that the constructor builds for one channel at 48000 Hz with no options and
  both ratios 1 (see \<open>new_Impl_example\<close> below).
\<close>

definition example_offline :: impl where
  "example_offline =
     \<lparr>sampleRate = 48000, channels = 1, timeRatio = 1, pitchScale = 1, windowSize = 2048,
      increment = 341, outbufSize = 4096, maxProcessSize = 2048, expectedInputDuration = 0,
      threaded = False, realtime = False, options = {}, mode = JustCreated,
      windows = {2048}, window = Some 2048, studyFFT = Some 2048, inputDuration = 0,
      phaseResetDf = [], stretchDf = [], outputIncrements = [],
      phaseResetAudioCurve = Some (new_curve Percussive 48000 2048),
      stretchAudioCurve = Some (new_curve HighFrequency 48000 2048),
      stretchCalculator =
        Some \<lparr>calc_sampleRate = 48000, calc_increment = 341, calc_useHardPeaks = True\<rparr>,
      baseWindowSize = 2048, rateMultiple = 1,
      channelData = [cd_prefill 2048 (new_ChannelData example_env {2048} 2048 4096)],
      cerr = []\<rparr>"

text \<open>The same stretcher after a complete run that left a schedule of three increments.\<close>

definition example_finished :: impl where
  "example_finished = example_offline\<lparr>mode := Finished, outputIncrements := [341, 341, 341]\<rparr>"

text \<open>A channel with \<open>n\<close> samples waiting in a ring of 4096, its input size unknown.\<close>

definition example_channel :: "nat \<Rightarrow> channel" where
  "example_channel n =
     \<lparr>inbuf = \<lparr>ring_data = replicate n 0, ring_size = 4096\<rparr>, outbuf = new_ring 4096,
      inCount = n, outCount = 0, inputSize = - 1, draining = False,
      resampler = None, resamplebufSize = 0, cd_windowSize = 2048\<rparr>"

subsection \<open>Frame conditions\<close>

text \<open>A state, or the result of a step if there is one, has the ratios and the realtime flag of \<open>s\<close>.\<close>

definition keeps_ratios :: "impl \<Rightarrow> impl \<Rightarrow> bool" where
  "keeps_ratios s s' =
     (timeRatio s' = timeRatio s \<and> pitchScale s' = pitchScale s \<and> realtime s' = realtime s)"

definition keeps_ratios_opt :: "impl \<Rightarrow> impl option \<Rightarrow> bool" where
  "keeps_ratios_opt s r = (\<forall>s'. r = Some s' \<longrightarrow> keeps_ratios s s')"

section \<open>Properties\<close>

subsection \<open>Evaluation\<close>

text \<open>
  Concrete runs are evaluated by rewriting. The continuation of a bind and the body of a
  \<open>let\<close> are only rewritten once their argument is a value.
\<close>

lemma bind_weak_cong: "x = y \<Longrightarrow> Option.bind x f = Option.bind y f"
  by simp

lemmas sizes_eval =
  calculateSizes_def offline_sizes_def rt_sizes_def squash_sizes_def stretch_window_def
  offline_halve.simps rt_halve.simps below_512.simps fit_duration.simps grow_window.simps
  roundUp_def shl_int_def count_bits.simps c_trunc_def getEffectiveRatio_def
  defaultWindowSize_def defaultIncrement_def

lemma new_Impl_example: "new_Impl example_env 48000 1 {} 1 1 = Some example_offline"
  by (simp add: new_Impl_def configure_def sizes_eval example_offline_def Let_def new_curve_def
      cong: bind_weak_cong let_weak_cong)

subsection \<open>roundUp\<close>

lemma and_pred_even: "0 < m \<Longrightarrow> (2 * m) AND (2 * m - 1) = 2 * (m AND (m - 1))" for m :: nat
proof -
  assume m: "0 < m"
  have d: "(2 * m - 1) div 2 = m - 1" using m by (cases m) simp_all
  have "(2 * m) AND (2 * m - 1)
          = (2 * m) mod 2 * ((2 * m - 1) mod 2) + 2 * (((2 * m) div 2) AND ((2 * m - 1) div 2))"
    using m by (subst and_nat_unfold) simp
  then show ?thesis using d by simp
qed

lemma and_pred_odd: "(2 * m + 1) AND (2 * m + 1 - 1) = 2 * m" for m :: nat
proof -
  have "(2 * m + 1) AND (2 * m)
          = (2 * m + 1) mod 2 * ((2 * m) mod 2) + 2 * (((2 * m + 1) div 2) AND ((2 * m) div 2))"
    by (subst and_nat_unfold) simp
  then show ?thesis by simp
qed

lemma and_pred_zero_imp: "v AND (v - 1) = 0 \<Longrightarrow> 0 < v \<Longrightarrow> is_pow2 v" for v :: nat
proof (induction v rule: less_induct)
  case (less v)
  show ?case
  proof (cases "even v")
    case True
    then obtain m where vm: "v = 2 * m" by (auto elim: evenE)
    with less.prems have m: "0 < m" by simp
    from less.prems(1) vm and_pred_even [OF m] have "m AND (m - 1) = 0" by simp
    moreover have "m < v" using vm m by simp
    ultimately have "is_pow2 m" using less.IH m by blast
    then obtain k where "m = 2 ^ k" by (auto simp: is_pow2_def)
    then have "v = 2 ^ Suc k" using vm by simp
    then show ?thesis unfolding is_pow2_def by blast
  next
    case False
    then obtain m where vm: "v = 2 * m + 1" by (auto elim: oddE)
    from less.prems(1) vm and_pred_odd [of m] have "m = 0" by simp
    then have "v = 2 ^ 0" using vm by simp
    then show ?thesis unfolding is_pow2_def by blast
  qed
qed

lemma pow2_and_pred: "(2::nat) ^ k AND (2 ^ k - 1) = 0"
proof (induction k)
  case 0
  show ?case by simp
next
  case (Suc k)
  have "(2::nat) ^ Suc k AND (2 ^ Suc k - 1) = 2 * (2 ^ k AND (2 ^ k - 1))"
    using and_pred_even [of "2 ^ k"] by simp
  then show ?case using Suc by simp
qed

lemma count_bits_floorlog: "count_bits b v = b + floorlog 2 v"
proof (induction b v rule: count_bits.induct)
  case (1 bits v)
  show ?case
  proof (cases "v = 0")
    case True
    then show ?thesis by (simp add: count_bits.simps floorlog_eq_zero_iff)
  next
    case False
    have "count_bits bits v = count_bits (bits + 1) (v div 2)"
      using False by (subst count_bits.simps) simp
    also have "\<dots> = bits + 1 + floorlog 2 (v div 2)"
      using 1 False by simp
    also have "\<dots> = bits + floorlog 2 v"
      using False by (subst (2) compute_floorlog) simp
    finally show ?thesis .
  qed
qed

lemma count_bits_bounds:
  assumes "0 < v"
  shows "2 ^ (count_bits 0 v - 1) \<le> v" and "v < 2 ^ count_bits 0 v"
proof -
  have e: "count_bits 0 v = floorlog 2 v" using count_bits_floorlog [of 0 v] by simp
  have "(2::nat) ^ (floorlog 2 v - 1) \<le> v \<and> v < 2 ^ floorlog 2 v"
    by (rule floorlog_bounds) (use assms in simp_all)
  then show "2 ^ (count_bits 0 v - 1) \<le> v" and "v < 2 ^ count_bits 0 v"
    unfolding e by blast+
qed

lemma pow2_lt_imp: "(2::nat) ^ a < 2 ^ b \<Longrightarrow> a < b"
  by simp

text \<open>A power of two comes back unchanged, whatever its size.\<close>

lemma roundUp_pow2_fixed: "is_pow2 v \<Longrightarrow> roundUp v = Some v"
proof -
  assume "is_pow2 v"
  then obtain k where "v = 2 ^ k" unfolding is_pow2_def by blast
  then show ?thesis by (simp only: roundUp_def pow2_and_pred) simp
qed

text \<open>
  From 1 to \<open>2 ^ 30\<close>, where the shift \<^verbatim>\<open>1 << bits\<close> stays within \<^verbatim>\<open>int\<close>, the result is the
  argument itself for a power of two and the next higher power of two otherwise.
\<close>

lemma roundUp_in_int_range:
  assumes "0 < v" and "v \<le> 2 ^ 30"
  shows "(is_pow2 v \<longrightarrow> roundUp v = Some v) \<and>
         (\<not> is_pow2 v \<longrightarrow> (\<exists>k. roundUp v = Some (2 ^ k) \<and> 2 ^ (k - 1) < v \<and> v < 2 ^ k)) \<and>
         (\<exists>p. roundUp v = Some p \<and> is_pow2 p \<and> v \<le> p \<and> (1 < v \<longrightarrow> p div 2 < v))"
proof -
  have A: "roundUp v = Some v" if "is_pow2 v"
  proof -
    from that obtain k where "v = 2 ^ k" unfolding is_pow2_def by blast
    then show ?thesis by (simp only: roundUp_def pow2_and_pred) simp
  qed
  have B: "\<exists>k. roundUp v = Some (2 ^ k) \<and> 2 ^ (k - 1) < v \<and> v < 2 ^ k \<and> 0 < k"
    if np: "\<not> is_pow2 v"
  proof -
    let ?k = "count_bits 0 v"
    have nz: "v AND (v - 1) \<noteq> 0" using and_pred_zero_imp assms(1) np by blast
    have lo: "2 ^ (?k - 1) \<le> v" and hi: "v < 2 ^ ?k"
      using count_bits_bounds [OF assms(1)] by simp_all
    have "2 ^ (?k - 1) \<noteq> v" using np unfolding is_pow2_def by metis
    with lo have lo': "2 ^ (?k - 1) < v" by simp
    from lo' assms(2) have "(2::nat) ^ (?k - 1) < 2 ^ 30" by (rule less_le_trans)
    then have "?k - 1 < 30" by (rule pow2_lt_imp)
    then have k31: "?k < 31" by simp
    have kpos: "0 < ?k" using hi assms(1) by (cases "?k") simp_all
    have "roundUp v = Some (2 ^ ?k)" using nz k31 by (simp add: roundUp_def shl_int_def)
    then show ?thesis using lo' hi kpos by blast
  qed
  have C: "\<exists>p. roundUp v = Some p \<and> is_pow2 p \<and> v \<le> p \<and> (1 < v \<longrightarrow> p div 2 < v)"
  proof (cases "is_pow2 v")
    case True
    then show ?thesis using A assms(1) by auto
  next
    case False
    from B [OF False] obtain k where
      k: "roundUp v = Some (2 ^ k)" "2 ^ (k - 1) < v" "v < 2 ^ k" "0 < k"
      by blast
    have "(2::nat) ^ k div 2 = 2 ^ (k - 1)" using k(4) by (cases k) simp_all
    then show ?thesis using k by (auto simp: is_pow2_def)
  qed
  show ?thesis using A B C by blast
qed

text \<open>
  C9 says that \<open>roundUp v\<close> is the next higher power of two for every positive \<open>v\<close> that is
  not one. For \<open>v = 2 ^ 30 + 1\<close> that power is \<open>2 ^ 31\<close>, which every \<^verbatim>\<open>size_t\<close> holds, but the
  bit count is 31 and the source shifts the \<^verbatim>\<open>int\<close> constant 1: \<^verbatim>\<open>1 << 31\<close> is not \<open>2 ^ 31\<close> in
  \<^verbatim>\<open>int\<close>, and no power of two comes back. The same happens for \<open>2 ^ 31 + 1\<close>, with a shift
  by 32.
\<close>

theorem roundUp_shift_overflow:
  "roundUp (2 ^ 30 + 1) = None \<and> roundUp (2 ^ 31 + 1) = None"
  by (simp add: roundUp_def shl_int_def count_bits.simps)

subsection \<open>getLatency\<close>

lemmas fl_eval = pow2_def binade_def round_even_def round_double_def to_int32_def c_trunc_def
  count_bits.simps

text \<open>The rounding agrees with IEEE double precision on the constants 0.1 and 1/3.\<close>

lemma round_double_tenth: "round_double (1 / 10) = 3602879701896397 / 36028797018963968"
  by (simp add: fl_eval)

lemma round_double_third: "round_double (1 / 3) = 6004799503160661 / 18014398509481984"
  by (simp add: fl_eval)

lemma round_even_bounds: "\<lfloor>t\<rfloor> \<le> round_even t \<and> round_even t \<le> \<lceil>t\<rceil>"
proof -
  have "\<lfloor>t\<rfloor> + 1 \<le> \<lceil>t\<rceil>" if "t - real_of_int \<lfloor>t\<rfloor> > 0"
  proof -
    from that have "real_of_int \<lfloor>t\<rfloor> < t" by simp
    then have "\<lfloor>t\<rfloor> < \<lceil>t\<rceil>" by (simp add: less_ceiling_iff)
    then show ?thesis by simp
  qed
  then show ?thesis
    by (auto simp: round_even_def not_less)
qed


lemma binade_le_52:
  assumes "0 < y" and "y < 2 ^ 53"
  shows "binade y \<le> 52"
proof (cases "1 \<le> y")
  case True
  have "\<lfloor>y\<rfloor> < 2 ^ 53" using assms(2) by (simp add: floor_less_iff)
  moreover have "0 \<le> \<lfloor>y\<rfloor>" using True by simp
  ultimately have "nat \<lfloor>y\<rfloor> < 2 ^ 53" by (simp add: nat_less_iff)
  then have "floorlog 2 (nat \<lfloor>y\<rfloor>) \<le> 53" by (simp add: floorlog_le_iff)
  then have "count_bits 0 (nat \<lfloor>y\<rfloor>) \<le> 53" by (simp add: count_bits_floorlog)
  with True show ?thesis by (simp add: binade_def)
next
  case False
  then show ?thesis by (simp add: binade_def)
qed

lemma round_double_between:
  assumes "0 \<le> y" and "y < 2 ^ 53"
  shows "(real_of_int m \<le> y \<longrightarrow> real_of_int m \<le> round_double y) \<and>
         (y \<le> real_of_int m \<longrightarrow> round_double y \<le> real_of_int m)"
proof (cases "y = 0")
  case True
  then show ?thesis by (simp add: round_double_def)
next
  case False
  with assms(1) have pos: "0 < y" by simp
  define k where "k = nat (52 - binade y)"
  have kb: "52 - binade y = int k" "binade y - 52 = - int k"
    using binade_le_52 [OF pos assms(2)] by (simp_all add: k_def)
  have p1: "pow2 (52 - binade y) = 2 ^ k" unfolding kb by (simp add: pow2_def)
  have p2: "pow2 (binade y - 52) = 1 / 2 ^ k"
    unfolding kb by (cases "k = 0") (simp_all add: pow2_def)
  have rd: "round_double y = real_of_int (round_even (y * 2 ^ k)) / 2 ^ k"
    using pos by (simp add: round_double_def p1 p2)
  have S: "(0::real) < 2 ^ k" by simp
  show ?thesis
  proof (intro conjI impI)
    assume "real_of_int m \<le> y"
    then have "real_of_int m * 2 ^ k \<le> y * 2 ^ k" by simp
    then have "real_of_int (m * 2 ^ k) \<le> y * 2 ^ k" by simp
    then have "m * 2 ^ k \<le> \<lfloor>y * 2 ^ k\<rfloor>" by (simp only: le_floor_iff)
    also have "\<dots> \<le> round_even (y * 2 ^ k)" using round_even_bounds by blast
    finally have "real_of_int (m * 2 ^ k) \<le> real_of_int (round_even (y * 2 ^ k))"
      by (simp only: of_int_le_iff)
    then have "real_of_int m * 2 ^ k \<le> real_of_int (round_even (y * 2 ^ k))" by simp
    then show "real_of_int m \<le> round_double y"
      unfolding rd using S by (simp add: pos_le_divide_eq)
  next
    assume "y \<le> real_of_int m"
    then have "y * 2 ^ k \<le> real_of_int m * 2 ^ k" by simp
    then have "y * 2 ^ k \<le> real_of_int (m * 2 ^ k)" by simp
    then have "\<lceil>y * 2 ^ k\<rceil> \<le> m * 2 ^ k" by (simp only: ceiling_le_iff)
    moreover have "round_even (y * 2 ^ k) \<le> \<lceil>y * 2 ^ k\<rceil>" using round_even_bounds by blast
    ultimately have "round_even (y * 2 ^ k) \<le> m * 2 ^ k" by (rule order_trans [rotated])
    then have "real_of_int (round_even (y * 2 ^ k)) \<le> real_of_int (m * 2 ^ k)"
      by (simp only: of_int_le_iff)
    then have "real_of_int (round_even (y * 2 ^ k)) \<le> real_of_int m * 2 ^ k" by simp
    then show "round_double y \<le> real_of_int m"
      unfolding rd using S by (simp add: pos_divide_le_eq)
  qed
qed

lemma round_double_int:
  assumes "0 \<le> n" and "n < 2 ^ 53"
  shows "round_double (real_of_int n) = real_of_int n"
proof -
  have a: "0 \<le> real_of_int n" using assms(1) by simp
  have "real_of_int n < real_of_int (2 ^ 53)" using assms(2) by (simp only: of_int_less_iff)
  then have b: "real_of_int n < 2 ^ 53" by simp
  from round_double_between [OF a b, of n]
  have "real_of_int n \<le> round_double (real_of_int n)
      \<and> round_double (real_of_int n) \<le> real_of_int n"
    by simp
  then show ?thesis by simp
qed

lemma latency_steps:
  assumes p: "0 < p" and a: "a < 2 ^ 53" and x: "real a / p + 1 < 2 ^ 31 - 1"
  defines "y \<equiv> round_double (round_double (round_double (real a) / p) + 1)"
  shows "real_of_int \<lfloor>real a / p + 1\<rfloor> \<le> y"
    and "y \<le> real_of_int \<lfloor>real a / p + 1\<rfloor> + 1"
    and "real a / p \<in> \<int> \<Longrightarrow> y = real a / p + 1"
proof -
  let ?quot = "real a / p"
  let ?n = "\<lfloor>?quot + 1\<rfloor>"
  have ra: "round_double (real a) = real a"
    using round_double_int [of "int a"] a by simp
  have q0: "0 \<le> ?quot" using p by simp
  have q0b: "?quot < 2 ^ 53" using x by simp
  have lo: "real_of_int (?n - 1) \<le> ?quot" and hi: "?quot \<le> real_of_int ?n"
    by (simp_all add: floor_add2 [symmetric])
  let ?rq = "round_double ?quot"
  have qlo: "real_of_int (?n - 1) \<le> ?rq" and qhi: "?rq \<le> real_of_int ?n"
    using round_double_between [OF q0 q0b, of "?n - 1"] round_double_between [OF q0 q0b, of ?n]
      lo hi by blast+
  have n1: "1 \<le> ?n" using q0 by simp
  have nb: "real_of_int ?n < 2 ^ 31 - 1" using x by linarith
  have qnn: "0 \<le> ?rq" using round_double_between [OF q0 q0b, of 0] q0 by simp
  have z0: "0 \<le> ?rq + 1" using qnn by simp
  have "(2::real) ^ 31 < 2 ^ 53" by simp
  with qhi nb have zb: "?rq + 1 < 2 ^ 53" by linarith
  have zlo: "real_of_int ?n \<le> ?rq + 1" using qlo by simp
  have zhi: "?rq + 1 \<le> real_of_int (?n + 1)" using qhi by simp
  have y: "y = round_double (?rq + 1)" by (simp add: y_def ra)
  show "real_of_int ?n \<le> y"
    unfolding y using round_double_between [OF z0 zb, of ?n] zlo by blast
  show "y \<le> real_of_int ?n + 1"
    unfolding y using round_double_between [OF z0 zb, of "?n + 1"] zhi by simp
  show "y = ?quot + 1" if "?quot \<in> \<int>"
  proof -
    from that obtain k where k: "?quot = real_of_int k" by (auto elim: Ints_cases)
    have "0 \<le> real_of_int k" using q0 k by linarith
    then have k0: "0 \<le> k" by (simp only: of_int_0_le_iff)
    have "real_of_int k < 2 ^ 53" using q0b k by linarith
    then have "real_of_int k < real_of_int (2 ^ 53)" by simp
    then have kb: "k < 2 ^ 53" by (simp only: of_int_less_iff)
    have "?rq = real_of_int k" unfolding k using round_double_int [OF k0 kb] .
    then have "y = round_double (real_of_int (k + 1))" unfolding y by simp
    also have "\<dots> = real_of_int (k + 1)"
    proof (rule round_double_int)
      show "0 \<le> k + 1" using k0 by simp
      have "real_of_int k + 1 < 2 ^ 31 - 1" using x k by simp
      then have "real_of_int (k + 1) < real_of_int (2 ^ 53)" by simp
      then show "k + 1 < 2 ^ 53" by (simp only: of_int_less_iff)
    qed
    finally show ?thesis using k by simp
  qed
qed

text \<open>
  C7, as the source has it: \<open>getLatency\<close> is 0 when the stretcher is not in realtime mode. In
  realtime mode, for a positive pitch scale and a window size with
  \<open>(windowSize/2)/pitchScale + 1 < 2 ^ 31 - 1\<close> (and half the window size below \<open>2 ^ 53\<close>), it is
  the value of \<open>(windowSize/2)/pitchScale + 1\<close> computed in double precision and truncated to
  an integer. That is the truncation of the exact value or one more (the rounded quotient
  can reach the next integer), and the truncation of the exact value whenever the quotient
  is an integer.
\<close>

theorem getLatency_rounded:
  "(\<not> realtime s \<longrightarrow> getLatency s = Some 0) \<and>
   (realtime s \<and> 0 < pitchScale s \<and> windowSize s div 2 < 2 ^ 53 \<and>
    real (windowSize s div 2) / pitchScale s + 1 < 2 ^ 31 - 1 \<longrightarrow>
      getLatency s
        = Some (nat \<lfloor>round_double (round_double (real (windowSize s div 2) / pitchScale s) + 1)\<rfloor>) \<and>
      (getLatency s = Some (nat \<lfloor>real (windowSize s div 2) / pitchScale s + 1\<rfloor>) \<or>
       getLatency s = Some (nat \<lfloor>real (windowSize s div 2) / pitchScale s + 1\<rfloor> + 1)) \<and>
      (real (windowSize s div 2) / pitchScale s \<in> \<int> \<longrightarrow>
         getLatency s = Some (nat \<lfloor>real (windowSize s div 2) / pitchScale s + 1\<rfloor>)))"
proof (intro conjI impI)
  assume "\<not> realtime s"
  then show "getLatency s = Some 0" by (simp add: getLatency_def)
next
  assume h: "realtime s \<and> 0 < pitchScale s \<and> windowSize s div 2 < 2 ^ 53 \<and>
    real (windowSize s div 2) / pitchScale s + 1 < 2 ^ 31 - 1"
  let ?a = "windowSize s div 2"
  let ?p = "pitchScale s"
  let ?x = "real ?a / ?p + 1"
  let ?n = "\<lfloor>?x\<rfloor>"
  define y where "y = round_double (round_double (round_double (real ?a) / ?p) + 1)"
  from h have p: "0 < ?p" and a: "?a < 2 ^ 53" and x: "?x < 2 ^ 31 - 1" by simp_all
  have ra: "round_double (real ?a) = real ?a"
    using round_double_int [of "int ?a"] a by simp
  have ylo: "real_of_int ?n \<le> y" and yhi: "y \<le> real_of_int ?n + 1"
    using latency_steps(1,2) [OF p a x] by (simp_all add: y_def)
  have n1: "1 \<le> ?n" using p by simp
  have nb: "?n < 2 ^ 31 - 1"
  proof -
    have "real_of_int ?n < 2 ^ 31 - 1" using x by linarith
    then have "real_of_int ?n < real_of_int (2 ^ 31 - 1)" by simp
    then show ?thesis by (simp only: of_int_less_iff)
  qed
  have y0: "0 \<le> y"
  proof -
    have "0 \<le> ?n" using n1 by linarith
    then have "(0::real) \<le> real_of_int ?n" by (simp only: of_int_0_le_iff)
    with ylo show ?thesis by linarith
  qed
  have fl: "?n \<le> \<lfloor>y\<rfloor>" and fu: "\<lfloor>y\<rfloor> \<le> ?n + 1"
    using ylo yhi by (simp_all add: le_floor_iff floor_le_iff)
  have t: "c_trunc y = \<lfloor>y\<rfloor>" using y0 by (simp add: c_trunc_def)
  have pw: "(2::int) ^ 31 = 2147483648" by simp
  have r1: "- (2 ^ 31) \<le> \<lfloor>y\<rfloor>" using fl n1 unfolding pw by linarith
  have r2: "\<lfloor>y\<rfloor> < 2 ^ 31" using fu nb unfolding pw by linarith
  have i32: "to_int32 y = Some \<lfloor>y\<rfloor>"
    by (simp only: to_int32_def t r1 r2 simp_thms if_True)
  have f0: "0 \<le> \<lfloor>y\<rfloor>" using fl n1 by linarith
  have pz: "pitchScale s \<noteq> 0" using p by simp
  have rt: "realtime s" using h by blast
  have g: "getLatency s = Some (nat \<lfloor>y\<rfloor>)"
    by (simp only: getLatency_def rt pz simp_thms if_False if_True y_def [symmetric] i32
        option.case f0)
  show "getLatency s
        = Some (nat \<lfloor>round_double (round_double (real ?a / ?p) + 1)\<rfloor>)"
    using g by (simp add: y_def ra)
  from fl fu have "\<lfloor>y\<rfloor> = ?n \<or> \<lfloor>y\<rfloor> = ?n + 1" by linarith
  then show "getLatency s = Some (nat ?n) \<or> getLatency s = Some (nat ?n + 1)"
    using g n1 by (auto simp: nat_add_distrib)
  show "getLatency s = Some (nat ?n)" if "real ?a / ?p \<in> \<int>"
  proof -
    have "y = ?x" using latency_steps(3) [OF p a x that] by (simp add: y_def)
    then show ?thesis using g by simp
  qed
qed

theorem getLatency_rounded_witness:
  "realtime (example_offline\<lparr>realtime := True, pitchScale := 3602879701896397 / 4503599627370496\<rparr>) \<and>
   (0::real) < 3602879701896397 / 4503599627370496 \<and> (2048::nat) div 2 < 2 ^ 53 \<and>
   real ((2048::nat) div 2) / (3602879701896397 / 4503599627370496) + 1 < 2 ^ 31 - 1 \<and>
   nat \<lfloor>real ((2048::nat) div 2) / (3602879701896397 / 4503599627370496) + 1\<rfloor> = 1280 \<and>
   getLatency (example_offline\<lparr>realtime := True, pitchScale := 3602879701896397 / 4503599627370496\<rparr>)
     = Some (1280 + 1) \<and>
   getLatency (example_offline\<lparr>realtime := True, pitchScale := 2\<rparr>) = Some 513 \<and>
   getLatency example_offline = Some 0"
proof -
  let ?s = "example_offline\<lparr>realtime := True, pitchScale := 3602879701896397 / 4503599627370496\<rparr>"
  let ?t = "example_offline\<lparr>realtime := True, pitchScale := 2\<rparr>"
  have hs: "realtime ?s \<and> 0 < pitchScale ?s \<and> windowSize ?s div 2 < 2 ^ 53 \<and>
      real (windowSize ?s div 2) / pitchScale ?s + 1 < 2 ^ 31 - 1"
    by (simp add: example_offline_def)
  have ht: "realtime ?t \<and> 0 < pitchScale ?t \<and> windowSize ?t div 2 < 2 ^ 53 \<and>
      real (windowSize ?t div 2) / pitchScale ?t + 1 < 2 ^ 31 - 1"
    by (simp add: example_offline_def)
  have it: "real (windowSize ?t div 2) / pitchScale ?t \<in> \<int>"
    by (simp add: example_offline_def)
  have ho: "\<not> realtime example_offline" by (simp add: example_offline_def)
  from getLatency_rounded [of ?s] hs
  have "getLatency ?s
        = Some (nat \<lfloor>round_double (round_double (real (windowSize ?s div 2) / pitchScale ?s) + 1)\<rfloor>)"
    by blast
  then have a: "getLatency ?s = Some (1280 + 1)"
    by (simp add: example_offline_def fl_eval)
  from getLatency_rounded [of ?t] ht it
  have "getLatency ?t = Some (nat \<lfloor>real (windowSize ?t div 2) / pitchScale ?t + 1\<rfloor>)"
    by blast
  then have b: "getLatency ?t = Some 513" by (simp add: example_offline_def)
  from getLatency_rounded [of example_offline] ho
  have c: "getLatency example_offline = Some 0" by blast
  have fx: "nat \<lfloor>real ((2048::nat) div 2) / (3602879701896397 / 4503599627370496) + 1\<rfloor> = 1280"
    by simp
  have r: "realtime ?s" using hs by blast
  show ?thesis using a b c fx r by simp
qed

text \<open>
  C7 as stated, the truncation of \<open>(windowSize/2)/pitchScale + 1\<close> for every positive pitch
  scale, fails twice at window size 2048. At pitch scale \<open>2 ^ -22\<close> the value is \<open>2 ^ 32 + 1\<close>,
  which the conversion to \<^verbatim>\<open>int\<close> cannot hold. At the pitch scale that the literal 0.8 denotes
  in double precision the quotient \<open>1024/pitchScale\<close> lies just below 1280 and is rounded to
  1280: the result is 1281, the truncation of the exact value is 1280.
\<close>

theorem getLatency_counterexample:
  "getLatency (example_offline\<lparr>realtime := True, pitchScale := 1 / 4194304\<rparr>) = None \<and>
   getLatency (example_offline\<lparr>realtime := True, pitchScale := 3602879701896397 / 4503599627370496\<rparr>)
     = Some 1281 \<and>
   c_trunc (real (windowSize example_offline div 2) / (3602879701896397 / 4503599627370496) + 1) = 1280"
  by (simp add: getLatency_def fl_eval example_offline_def)

subsection \<open>calculateSizes\<close>

text \<open>
  C1 asks for \<open>increment \<ge> 1\<close> after every sizing. The stretcher constructed offline for one
  channel at 48000 Hz with time ratio 512 and pitch scale 1 has window size 8192 and
  increment 0: the offline branch for \<open>r \<ge> 1\<close> starts from \<open>int(341 / 512) = 0\<close>, and its
  loop, which is guarded by \<open>inputIncrement > 1\<close> like the others, is not entered.
\<close>

theorem calculateSizes_increment_zero:
  "map_option (\<lambda>s. (windowSize s, increment s)) (new_Impl example_env 48000 1 {} 512 1)
     = Some (8192, 0)"
  by (simp add: new_Impl_def configure_def sizes_eval Let_def
      cong: bind_weak_cong let_weak_cong)





subsection \<open>getSamplesRequired\<close>

lemma samples_required_loop_fold:
  "samples_required_loop w cds reqd = fold max (map (channel_requirement w) cds) reqd"
  by (induction cds arbitrary: reqd) (simp_all add: channel_requirement_def Let_def max_def)

text \<open>
  C6: in every state, \<open>getSamplesRequired\<close> is the maximum over the channels of what each
  channel requires (0 when there is no channel): \<open>windowSize - read_space\<close> for a channel
  short of a window, not draining, with the input size unknown (\<open>-1\<close>); \<open>windowSize\<close> for one
  short of a window, not draining, with a known input size and an empty ring; 0 otherwise.
  In particular it is 0 once every channel's input ring holds at least \<open>windowSize\<close> samples.
\<close>

theorem getSamplesRequired_max:
  "getSamplesRequired s = Max (insert 0 (channel_requirement (windowSize s) ` set (channelData s))) \<and>
   ((\<forall>cd\<in>set (channelData s). windowSize s \<le> getReadSpace (inbuf cd)) \<longrightarrow>
      getSamplesRequired s = 0)"
proof
  have "Max (insert 0 (channel_requirement (windowSize s) ` set (channelData s)))
          = Max (set (0 # map (channel_requirement (windowSize s)) (channelData s)))"
    by simp
  also have "\<dots> = fold max (map (channel_requirement (windowSize s)) (channelData s)) 0"
    by (rule Max.set_eq_fold)
  finally show m: "getSamplesRequired s
      = Max (insert 0 (channel_requirement (windowSize s) ` set (channelData s)))"
    by (simp add: getSamplesRequired_def samples_required_loop_fold)
  show "(\<forall>cd\<in>set (channelData s). windowSize s \<le> getReadSpace (inbuf cd)) \<longrightarrow>
      getSamplesRequired s = 0"
  proof
    assume a: "\<forall>cd\<in>set (channelData s). windowSize s \<le> getReadSpace (inbuf cd)"
    then have "channel_requirement (windowSize s) ` set (channelData s) \<subseteq> {0}"
      by (auto simp: channel_requirement_def)
    then have "insert 0 (channel_requirement (windowSize s) ` set (channelData s)) = {0}"
      by auto
    with m show "getSamplesRequired s = 0" by simp
  qed
qed

theorem getSamplesRequired_max_witness:
  "windowSize (example_offline\<lparr>channelData := [example_channel 2048, example_channel 3000]\<rparr>)
     \<le> getReadSpace (inbuf (example_channel 2048)) \<and>
   windowSize (example_offline\<lparr>channelData := [example_channel 2048, example_channel 3000]\<rparr>)
     \<le> getReadSpace (inbuf (example_channel 3000)) \<and>
   getSamplesRequired (example_offline\<lparr>channelData := [example_channel 2048, example_channel 3000]\<rparr>) = 0 \<and>
   getSamplesRequired (example_offline\<lparr>channelData := [example_channel 2000, example_channel 100]\<rparr>) = 1948"
proof -
  let ?s = "example_offline\<lparr>channelData := [example_channel 2048, example_channel 3000]\<rparr>"
  let ?t = "example_offline\<lparr>channelData := [example_channel 2000, example_channel 100]\<rparr>"
  have a: "windowSize ?s \<le> getReadSpace (inbuf (example_channel 2048))"
    and b: "windowSize ?s \<le> getReadSpace (inbuf (example_channel 3000))"
    by (simp_all add: example_offline_def example_channel_def getReadSpace_def)
  then have h: "\<forall>cd\<in>set (channelData ?s). windowSize ?s \<le> getReadSpace (inbuf cd)"
    by simp
  have z: "getSamplesRequired ?s = 0"
    using getSamplesRequired_max [of ?s] h by blast
  have "getSamplesRequired ?t
          = Max (insert 0 (channel_requirement (windowSize ?t) ` set (channelData ?t)))"
    using getSamplesRequired_max [of ?t] by blast
  then have "getSamplesRequired ?t = 1948"
    by (simp add: example_offline_def example_channel_def getReadSpace_def channel_requirement_def)
  with a b z show ?thesis by blast
qed

subsection \<open>consumeChannel\<close>

lemma consume_loop_result:
  assumes "samples \<le> length input"
  shows "consume_loop cd input samples 0
           = (cd\<lparr>inbuf := (inbuf cd)\<lparr>ring_data := ring_data (inbuf cd)
                                           @ take (min (getWriteSpace (inbuf cd)) samples) input\<rparr>,
                 inCount := inCount cd + min (getWriteSpace (inbuf cd)) samples\<rparr>,
              min (getWriteSpace (inbuf cd)) samples)"
proof -
  let ?ws = "getWriteSpace (inbuf cd)"
  let ?n = "min ?ws samples"
  show ?thesis
  proof (cases "?n = 0")
    case True
    then have "consume_loop cd input samples 0 = (cd, 0)"
      by (subst consume_loop.simps) (auto simp: Let_def min_def split: if_splits)
    with True show ?thesis by simp
  next
    case False
    let ?cd1 = "cd\<lparr>inbuf := ring_write (inbuf cd) input ?n, inCount := inCount cd + ?n\<rparr>"
    have pos: "0 < samples" using False by (cases samples) simp_all
    have first: "consume_loop cd input samples 0 = consume_loop ?cd1 input samples ?n"
      using False pos by (subst consume_loop.simps) (auto simp: Let_def min_def)
    have len: "length (take ?n input) = ?n" using assms by simp
    have w: "ring_write (inbuf cd) input ?n
               = (inbuf cd)\<lparr>ring_data := ring_data (inbuf cd) @ take ?n input\<rparr>"
      by (simp add: ring_write_def)
    have ws1: "getWriteSpace (inbuf ?cd1) = ?ws - ?n"
      using len by (simp add: ring_write_def getWriteSpace_def)
    have unf: "consume_loop ?cd1 input samples ?n
                 = (if ?n < samples
                    then (let writable = min (getWriteSpace (inbuf ?cd1)) (samples - ?n) in
                          if writable = 0 then (?cd1, ?n)
                          else consume_loop
                                 (?cd1\<lparr>inbuf := ring_write (inbuf ?cd1) (drop ?n input) writable,
                                      inCount := inCount ?cd1 + writable\<rparr>)
                                 input samples (?n + writable))
                    else (?cd1, samples))"
      by (rule consume_loop.simps)
    have second: "consume_loop ?cd1 input samples ?n = (?cd1, ?n)"
    proof (cases "?n < samples")
      case True
      then have "?ws - ?n = 0" by (simp add: min_def split: if_splits)
      with ws1 have z: "min (getWriteSpace (inbuf ?cd1)) (samples - ?n) = 0" by simp
      show ?thesis by (simp only: unf True z Let_def if_True simp_thms)
    next
      case False
      then have e: "?n = samples" by (simp add: min_def split: if_splits)
      show ?thesis unfolding unf using e by simp
    qed
    have "consume_loop cd input samples 0 = (?cd1, ?n)" using first second by (rule trans)
    then show ?thesis by (simp only: w)
  qed
qed

text \<open>
  C8: for every channel \<open>c\<close> and every input block of at least \<open>samples\<close> samples,
  \<open>consumeChannel\<close> appends to the input ring of channel \<open>c\<close> the first \<open>n\<close> samples of the
  block, where \<open>n\<close> is the smaller of the ring's write space and \<open>samples\<close>, adds \<open>n\<close> to the
  channel's \<open>inCount\<close>, changes nothing else and returns \<open>n\<close>: the partial count when the
  ring fills up, without waiting and without dropping what was written.
\<close>

theorem consumeChannel_writes:
  assumes "c < length (channelData s)" and "samples \<le> length input"
  shows "let cd = channelData s ! c; n = min (getWriteSpace (inbuf cd)) samples in
         consumeChannel c input samples s
           = Some (s\<lparr>channelData := (channelData s)
                        [c := cd\<lparr>inbuf := (inbuf cd)\<lparr>ring_data := ring_data (inbuf cd) @ take n input\<rparr>,
                                 inCount := inCount cd + n\<rparr>]\<rparr>, n)"
  using assms(1) consume_loop_result [OF assms(2), of "channelData s ! c"]
  by (simp add: consumeChannel_def Let_def)

theorem consumeChannel_writes_witness:
  "0 < length (channelData example_offline) \<and> 5000 \<le> length (replicate 5000 (1::real)) \<and>
   getWriteSpace (inbuf (channelData example_offline ! 0)) = 3072 \<and>
   map_option snd (consumeChannel 0 (replicate 5000 1) 5000 example_offline) = Some 3072"
proof -
  have h1: "0 < length (channelData example_offline)" by (simp add: example_offline_def)
  have h2: "5000 \<le> length (replicate 5000 (1::real))" by simp
  have ws: "getWriteSpace (inbuf (channelData example_offline ! 0)) = 3072"
    by (simp add: example_offline_def example_env_def cd_prefill_def cd_reset_def new_ChannelData_def
        ring_zero_def ring_reset_def new_ring_def getWriteSpace_def Let_def)
  from consumeChannel_writes [OF h1 h2]
  have "map_option snd (consumeChannel 0 (replicate 5000 1) 5000 example_offline)
          = Some (min (getWriteSpace (inbuf (channelData example_offline ! 0))) 5000)"
    by (simp add: Let_def)
  with ws h1 h2 show ?thesis by simp
qed

subsection \<open>study\<close>

lemmas chan_eval =
  example_env_def cd_prefill_def cd_reset_def new_ChannelData_def new_curve_def
  ring_zero_def ring_reset_def ring_write_def ring_skip_def ring_peek_def new_ring_def
  getReadSpace_def getWriteSpace_def

lemma new_Impl_example_channel:
  "channelData example_offline
     = [\<lparr>inbuf = \<lparr>ring_data = replicate 1024 0, ring_size = 4096\<rparr>, outbuf = new_ring 4096,
         inCount = 0, outCount = 0, inputSize = - 1, draining = False,
         resampler = None, resamplebufSize = 0, cd_windowSize = 2048\<rparr>]"
  by (simp add: example_offline_def chan_eval Let_def)

text \<open>
  C2 asks that the final call subtracts \<open>windowSize/2\<close> whenever the input duration is at
  least \<open>windowSize/2\<close>, equality included. On the freshly constructed offline stretcher
  (window size 2048, input ring pre-filled with 1024 zeros), \<open>study\<close> with no samples and
  \<open>final = true\<close> adds the 1024 readable samples and then leaves the input duration at 1024:
  the test in the source is \<open>m_inputDuration > m_windowSize/2\<close>. The input held no sample,
  and the comment in the source wants the exact input duration without the pre-fill.
\<close>

theorem study_empty_final:
  "map_option (\<lambda>s. (windowSize s, inputDuration s))
     (study example_env [[]] 0 True example_offline) = Some (2048, 1024)"
  by (simp add: study_def study_loop.simps study_finish_def mixdown_of_def example_offline_def
      chan_eval Let_def cong: bind_weak_cong let_weak_cong)

lemma study_chunk_keeps:
  "study_chunk e s cd cds = Some s' \<Longrightarrow>
     outputIncrements s' = outputIncrements s \<and> mode s' = mode s"
  by (auto simp: study_chunk_def bind_eq_Some_conv Let_def)

lemma study_chunks_keeps:
  "study_chunks e final s = Some s' \<Longrightarrow>
     outputIncrements s' = outputIncrements s \<and> mode s' = mode s"
proof (induction rule: study_chunks.raw_induct [rotated 1, consumes 1])
  case (1 study_chunks' e final s s')
  show ?case
  proof (cases "channelData s")
    case Nil
    with 1(2) show ?thesis by simp
  next
    case (Cons cd cds)
    show ?thesis
    proof (cases "getReadSpace (inbuf cd) \<ge> windowSize s
              \<or> (final \<and> getReadSpace (inbuf cd) \<ge> windowSize s div 2)")
      case False
      with 1(2) Cons show ?thesis by auto
    next
      case True
      with 1(2) Cons obtain s1 where
        s1: "study_chunk e s cd cds = Some s1" "study_chunks' e final s1 = Some s'"
        by (auto simp: bind_eq_Some_conv)
      from 1(1) [OF s1(2)] study_chunk_keeps [OF s1(1)] show ?thesis by simp
    qed
  qed
qed

lemma study_loop_keeps:
  "study_loop e mixdown samples final consumed s = Some s' \<Longrightarrow>
     outputIncrements s' = outputIncrements s \<and> mode s' = mode s"
proof (induction rule: study_loop.raw_induct [rotated 1, consumes 1])
  case (1 study_loop' e mixdown samples final consumed s s')
  show ?case
  proof (cases "consumed < samples")
    case False
    with 1(2) show ?thesis by simp
  next
    case True
    show ?thesis
    proof (cases "channelData s")
      case Nil
      with 1(2) True show ?thesis by simp
    next
      case (Cons cd cds)
      let ?w = "min (getWriteSpace (inbuf cd)) (samples - consumed)"
      show ?thesis
      proof (cases "?w = 0")
        case z: True
        with 1(2) True Cons obtain s1 where
          s1: "study_chunks e final (s\<lparr>cerr := cerr s @ [WritableZero]\<rparr>) = Some s1"
              "study_loop' e mixdown samples final consumed s1 = Some s'"
          by (auto simp: bind_eq_Some_conv)
        from 1(1) [OF s1(2)] study_chunks_keeps [OF s1(1)] show ?thesis by simp
      next
        case nz: False
        with 1(2) True Cons obtain s1 where
          s1: "study_chunks e final
                 (s\<lparr>channelData := cd\<lparr>inbuf := ring_write (inbuf cd) (drop consumed mixdown) ?w\<rparr> # cds\<rparr>)
                 = Some s1"
              "study_loop' e mixdown samples final (consumed + ?w) s1 = Some s'"
          by (auto simp: bind_eq_Some_conv)
        from 1(1) [OF s1(2)] study_chunks_keeps [OF s1(1)] show ?thesis by simp
      qed
    qed
  qed
qed

lemma study_keeps:
  assumes "study e input samples final s = Some s'"
  shows "outputIncrements s' = outputIncrements s"
    and "\<not> realtime s \<Longrightarrow> mode s = JustCreated \<or> mode s = Studying \<Longrightarrow> mode s' = Studying"
proof -
  show "outputIncrements s' = outputIncrements s"
  proof (cases "realtime s \<or> mode s = Processing \<or> mode s = Finished")
    case True
    with assms show ?thesis by (auto simp: study_def split: if_splits)
  next
    case False
    with assms obtain s1 where
      s1: "study_loop e (if channels s > 1 \<or> final then mixdown_of input samples (channels s)
                         else input ! 0) samples final 0 (s\<lparr>mode := Studying\<rparr>) = Some s1"
          "(if final then study_finish s1 else Some s1) = Some s'"
      by (auto simp: study_def bind_eq_Some_conv split: if_splits)
    from s1(2) have "outputIncrements s' = outputIncrements s1"
      by (auto simp: study_finish_def Let_def split: if_splits list.splits)
    with study_loop_keeps [OF s1(1)] show ?thesis by simp
  qed
  show "mode s' = Studying" if "\<not> realtime s" "mode s = JustCreated \<or> mode s = Studying"
  proof -
    from assms that obtain s1 where
      s1: "study_loop e (if channels s > 1 \<or> final then mixdown_of input samples (channels s)
                         else input ! 0) samples final 0 (s\<lparr>mode := Studying\<rparr>) = Some s1"
          "(if final then study_finish s1 else Some s1) = Some s'"
      by (auto simp: study_def bind_eq_Some_conv split: if_splits)
    from s1(2) have "mode s' = mode s1"
      by (auto simp: study_finish_def Let_def split: if_splits list.splits)
    with study_loop_keeps [OF s1(1)] show ?thesis by simp
  qed
qed

subsection \<open>reset\<close>

text \<open>
  C4: \<open>reset\<close> sets the mode to \<open>JustCreated\<close>, makes every channel anew, resets the two
  curves and zeroes the input duration, and leaves \<open>phaseResetDf\<close>, \<open>stretchDf\<close> and
  \<open>outputIncrements\<close> as they are. So when an offline stretcher that holds a schedule is
  reset and studied again, the first \<open>process\<close> call appends the new increments to the old
  schedule.
\<close>

theorem reset_keeps_schedule:
  "mode (reset e s) = JustCreated \<and> inputDuration (reset e s) = 0 \<and>
   channelData (reset e s)
     = map (\<lambda>_. new_ChannelData e {} (windowSize s) (outbufSize s)) (channelData s) \<and>
   phaseResetAudioCurve (reset e s) = map_option curve_reset (phaseResetAudioCurve s) \<and>
   stretchAudioCurve (reset e s) = map_option curve_reset (stretchAudioCurve s) \<and>
   phaseResetDf (reset e s) = phaseResetDf s \<and> stretchDf (reset e s) = stretchDf s \<and>
   outputIncrements (reset e s) = outputIncrements s \<and>
   (\<forall>input samples final s1 s2.
      \<not> realtime s \<and> outputIncrements s \<noteq> [] \<and>
      study e input samples final (reset e s) = Some s1 \<and> process_begin e s1 = Some s2 \<longrightarrow>
      (\<exists>calc. stretchCalculator s1 = Some calc \<and>
         outputIncrements s2
           = outputIncrements s
             @ calculate e calc (getEffectiveRatio s1) (inputDuration s1)
                 (phaseResetDf s1) (stretchDf s1)))"
proof -
  have run: "\<exists>calc. stretchCalculator s1 = Some calc \<and>
         outputIncrements s2
           = outputIncrements s
             @ calculate e calc (getEffectiveRatio s1) (inputDuration s1)
                 (phaseResetDf s1) (stretchDf s1)"
    if a: "\<not> realtime s" "outputIncrements s \<noteq> []"
      "study e input samples final (reset e s) = Some s1" "process_begin e s1 = Some s2"
    for input samples final s1 s2
  proof -
    have oi: "outputIncrements s1 = outputIncrements s"
      using study_keeps(1) [OF a(3)] by (simp add: reset_def)
    have m: "mode s1 = Studying"
      using study_keeps(2) [OF a(3)] a(1) by (simp add: reset_def)
    from a(4) m obtain s' where s': "calculateStretch e s1 = Some s'"
      and s2: "outputIncrements s2 = outputIncrements s'"
      by (auto simp: process_begin_def bind_eq_Some_conv)
    from s' obtain calc where c: "stretchCalculator s1 = Some calc"
      by (cases "stretchCalculator s1") (simp_all add: calculateStretch_def)
    from s' c oi a(2) have "outputIncrements s'
        = outputIncrements s @ calculate e calc (getEffectiveRatio s1) (inputDuration s1)
                                 (phaseResetDf s1) (stretchDf s1)"
      by (auto simp: calculateStretch_def Let_def)
    with c s2 show ?thesis by simp
  qed
  have frame: "mode (reset e s) = JustCreated \<and> inputDuration (reset e s) = 0 \<and>
   channelData (reset e s)
     = map (\<lambda>_. new_ChannelData e {} (windowSize s) (outbufSize s)) (channelData s) \<and>
   phaseResetAudioCurve (reset e s) = map_option curve_reset (phaseResetAudioCurve s) \<and>
   stretchAudioCurve (reset e s) = map_option curve_reset (stretchAudioCurve s) \<and>
   phaseResetDf (reset e s) = phaseResetDf s \<and> stretchDf (reset e s) = stretchDf s \<and>
   outputIncrements (reset e s) = outputIncrements s"
    by (simp add: reset_def)
  from frame run show ?thesis by blast
qed

theorem reset_keeps_schedule_witness:
  "\<not> realtime example_finished \<and> outputIncrements example_finished \<noteq> [] \<and>
   (\<exists>s1 s2. study example_env [[]] 0 True (reset example_env example_finished) = Some s1 \<and>
      process_begin example_env s1 = Some s2 \<and>
      outputIncrements s2 = outputIncrements example_finished @ [341])"
proof -
  let ?s1 = "(reset example_env example_finished)\<lparr>mode := Studying\<rparr>"
  have h1: "\<not> realtime example_finished" and h2: "outputIncrements example_finished \<noteq> []"
    by (simp_all add: example_finished_def example_offline_def)
  have a: "study example_env [[]] 0 True (reset example_env example_finished) = Some ?s1"
    by (simp add: study_def study_loop.simps study_finish_def mixdown_of_def reset_def
        example_finished_def example_offline_def chan_eval Let_def
        cong: bind_weak_cong let_weak_cong)
  have "process_begin example_env ?s1 \<noteq> None"
    by (simp add: process_begin_def calculateStretch_def reset_def
        example_finished_def example_offline_def Let_def cong: bind_weak_cong let_weak_cong)
  then obtain s2 where b: "process_begin example_env ?s1 = Some s2" by blast
  from reset_keeps_schedule [of example_env example_finished] h1 h2 a b
  obtain calc where c: "stretchCalculator ?s1 = Some calc"
    and oi: "outputIncrements s2 = outputIncrements example_finished
               @ calculate example_env calc (getEffectiveRatio ?s1) (inputDuration ?s1)
                   (phaseResetDf ?s1) (stretchDf ?s1)"
    by blast
  from c have "calc = \<lparr>calc_sampleRate = 48000, calc_increment = 341, calc_useHardPeaks = True\<rparr>"
    by (simp add: reset_def example_finished_def example_offline_def)
  with oi have "outputIncrements s2 = outputIncrements example_finished @ [341]"
    by (simp add: reset_def example_finished_def example_offline_def example_env_def)
  with h1 h2 a b show ?thesis by blast
qed

subsection \<open>setTimeRatio and setPitchScale\<close>

text \<open>
  \<open>calculateSizes\<close>, \<open>calculateStretch\<close>, \<open>configure\<close> and \<open>reconfigure\<close> do not write the
  ratios: the proof follows each function through its bindings.
\<close>

lemma kr_refl: "keeps_ratios s s"
  by (simp add: keeps_ratios_def)

lemma kr_Let_st:
  "keeps_ratios s a \<Longrightarrow> (\<And>x. keeps_ratios s x \<Longrightarrow> keeps_ratios_opt s (f x)) \<Longrightarrow>
     keeps_ratios_opt s (Let a f)"
  by simp

lemma kr_Let_val: "(\<And>x. keeps_ratios_opt s (f x)) \<Longrightarrow> keeps_ratios_opt s (Let a f)"
  by simp

lemma kr_bind:
  "keeps_ratios_opt s m \<Longrightarrow> (\<And>x. keeps_ratios s x \<Longrightarrow> keeps_ratios_opt s (f x)) \<Longrightarrow>
     keeps_ratios_opt s (Option.bind m f)"
  by (auto simp: keeps_ratios_opt_def bind_eq_Some_conv)

lemma kr_Some: "keeps_ratios s x \<Longrightarrow> keeps_ratios_opt s (Some x)"
  by (simp add: keeps_ratios_opt_def)

lemma kr_if_opt:
  "keeps_ratios_opt s a \<Longrightarrow> keeps_ratios_opt s b \<Longrightarrow> keeps_ratios_opt s (if c then a else b)"
  by simp

lemma kr_trans: "keeps_ratios s a \<Longrightarrow> keeps_ratios_opt a r \<Longrightarrow> keeps_ratios_opt s r"
  by (simp add: keeps_ratios_def keeps_ratios_opt_def)

lemma kr_bind_val:
  "(\<And>x. keeps_ratios_opt s (f x)) \<Longrightarrow> keeps_ratios_opt s (Option.bind m f)"
  by (auto simp: keeps_ratios_opt_def bind_eq_Some_conv)

lemma calculateSizes_kr: "keeps_ratios_opt s (calculateSizes s)"
  unfolding calculateSizes_def
  apply (rule kr_bind_val)
  apply (simp only: split_beta)
  apply (rule kr_Let_val)+
  apply (rule kr_Some)
  apply (simp add: keeps_ratios_def)
  done

lemma calculateStretch_kr: "keeps_ratios_opt s (calculateStretch e s)"
  by (auto simp: keeps_ratios_opt_def keeps_ratios_def calculateStretch_def Let_def
           split: option.splits)


lemma configure_kr: "keeps_ratios_opt s (configure e s)"
  unfolding configure_def
  apply (rule kr_Let_val)
  apply (rule kr_Let_val)
  apply (rule kr_bind)
   apply (rule calculateSizes_kr)
  apply ((rule kr_Let_st, simp add: keeps_ratios_def) | rule kr_Let_val)+
  apply (rule kr_Some)
  apply (simp add: keeps_ratios_def)
  done

lemma reconfigure_kr: "keeps_ratios_opt s (reconfigure e s)"
  unfolding reconfigure_def
  apply (rule kr_bind)
   apply (rule kr_if_opt)
    apply (rule kr_bind)
     apply (rule kr_if_opt)
      apply (rule kr_bind)
       apply (rule calculateStretch_kr)
      apply (rule kr_Some)
      apply (simp add: keeps_ratios_def)
     apply (rule kr_Some)
     apply (rule kr_refl)
    apply (erule kr_trans)
    apply (rule configure_kr)
   apply (rule kr_Some)
   apply (rule kr_refl)
  apply (rule kr_Let_val)
  apply (rule kr_Let_val)
  apply (rule kr_bind)
   apply (erule kr_trans)
   apply (rule calculateSizes_kr)
  apply (rule kr_Let_st, simp add: keeps_ratios_def Let_def)
  apply (rule kr_Let_st, simp add: keeps_ratios_def)
  apply (rule kr_Let_st, simp add: keeps_ratios_def split: prod.splits)
  apply (simp add: keeps_ratios_opt_def keeps_ratios_def split: option.splits)
  done

lemma reconfigure_keeps:
  "reconfigure e s = Some s' \<Longrightarrow> timeRatio s' = timeRatio s \<and> pitchScale s' = pitchScale s"
  using reconfigure_kr [of s e] by (simp add: keeps_ratios_opt_def keeps_ratios_def)

text \<open>
  C5: in non-realtime mode, while the mode is \<open>Studying\<close> or \<open>Processing\<close>, \<open>setTimeRatio\<close> and
  \<open>setPitchScale\<close> emit their diagnostic and change nothing else: ratios, mode and every
  other member keep their values and no reconfiguration runs. In every other case (realtime
  mode, or mode \<open>JustCreated\<close> or \<open>Finished\<close>) a value that differs from the current one is
  stored and \<open>reconfigure\<close> runs on the state that holds it; whatever state comes back holds
  the new value.
\<close>

theorem setRatio_rejected_or_reconfigured:
  "(\<not> realtime s \<and> (mode s = Studying \<or> mode s = Processing) \<longrightarrow>
      setTimeRatio e ratio s = Some (s\<lparr>cerr := cerr s @ [CannotSetRatio]\<rparr>) \<and>
      setPitchScale e fs s = Some (s\<lparr>cerr := cerr s @ [CannotSetPitchScale]\<rparr>)) \<and>
   (realtime s \<or> mode s = JustCreated \<or> mode s = Finished \<longrightarrow>
      (ratio \<noteq> timeRatio s \<longrightarrow>
         setTimeRatio e ratio s = reconfigure e (s\<lparr>timeRatio := ratio\<rparr>) \<and>
         (\<forall>s'. setTimeRatio e ratio s = Some s' \<longrightarrow>
            timeRatio s' = ratio \<and> pitchScale s' = pitchScale s)) \<and>
      (fs \<noteq> pitchScale s \<longrightarrow>
         setPitchScale e fs s = reconfigure e (s\<lparr>pitchScale := fs\<rparr>) \<and>
         (\<forall>s'. setPitchScale e fs s = Some s' \<longrightarrow>
            pitchScale s' = fs \<and> timeRatio s' = timeRatio s)))"
proof (intro conjI impI)
  assume "\<not> realtime s \<and> (mode s = Studying \<or> mode s = Processing)"
  then show "setTimeRatio e ratio s = Some (s\<lparr>cerr := cerr s @ [CannotSetRatio]\<rparr>)"
    and "setPitchScale e fs s = Some (s\<lparr>cerr := cerr s @ [CannotSetPitchScale]\<rparr>)"
    by (simp_all add: setTimeRatio_def setPitchScale_def)
next
  assume a: "realtime s \<or> mode s = JustCreated \<or> mode s = Finished" and n: "ratio \<noteq> timeRatio s"
  from a have g: "\<not> (\<not> realtime s \<and> (mode s = Studying \<or> mode s = Processing))" by auto
  show t: "setTimeRatio e ratio s = reconfigure e (s\<lparr>timeRatio := ratio\<rparr>)"
    using g n by (simp only: setTimeRatio_def if_False)
  show "\<forall>s'. setTimeRatio e ratio s = Some s' \<longrightarrow>
            timeRatio s' = ratio \<and> pitchScale s' = pitchScale s"
    unfolding t using reconfigure_keeps [of e "s\<lparr>timeRatio := ratio\<rparr>"] by simp
next
  assume a: "realtime s \<or> mode s = JustCreated \<or> mode s = Finished" and n: "fs \<noteq> pitchScale s"
  from a have g: "\<not> (\<not> realtime s \<and> (mode s = Studying \<or> mode s = Processing))" by auto
  show t: "setPitchScale e fs s = reconfigure e (s\<lparr>pitchScale := fs\<rparr>)"
    using g n by (simp only: setPitchScale_def if_False)
  show "\<forall>s'. setPitchScale e fs s = Some s' \<longrightarrow>
            pitchScale s' = fs \<and> timeRatio s' = timeRatio s"
    unfolding t using reconfigure_keeps [of e "s\<lparr>pitchScale := fs\<rparr>"] by simp
qed

lemma reconfigure_example:
  "reconfigure example_env (example_offline\<lparr>timeRatio := 2\<rparr>) \<noteq> None"
  by (simp add: reconfigure_def configure_def sizes_eval example_offline_def Let_def
      cong: bind_weak_cong let_weak_cong)

lemma reconfigure_example_pitch:
  "reconfigure example_env (example_offline\<lparr>pitchScale := 2\<rparr>) \<noteq> None"
  by (simp add: reconfigure_def configure_def configure_resampler_def sizes_eval
      example_offline_def chan_eval Let_def cong: bind_weak_cong let_weak_cong)

theorem setRatio_rejected_or_reconfigured_witness:
  "\<not> realtime (example_offline\<lparr>mode := Studying\<rparr>) \<and>
   mode (example_offline\<lparr>mode := Studying\<rparr>) = Studying \<and>
   setTimeRatio example_env 2 (example_offline\<lparr>mode := Studying\<rparr>)
     = Some (example_offline\<lparr>mode := Studying, cerr := [CannotSetRatio]\<rparr>) \<and>
   mode example_offline = JustCreated \<and> 2 \<noteq> timeRatio example_offline \<and>
   (\<exists>s'. setTimeRatio example_env 2 example_offline = Some s' \<and> timeRatio s' = 2) \<and>
   2 \<noteq> pitchScale example_offline \<and>
   (\<exists>s'. setPitchScale example_env 2 example_offline = Some s' \<and> pitchScale s' = 2)"
proof -
  let ?s = "example_offline\<lparr>mode := Studying\<rparr>"
  have h1: "\<not> realtime ?s \<and> (mode ?s = Studying \<or> mode ?s = Processing)"
    by (simp add: example_offline_def)
  have h2: "realtime example_offline \<or> mode example_offline = JustCreated
              \<or> mode example_offline = Finished"
    and h3: "2 \<noteq> timeRatio example_offline"
    and h4: "2 \<noteq> pitchScale example_offline"
    by (simp_all add: example_offline_def)
  from setRatio_rejected_or_reconfigured [of ?s example_env 2 2] h1
  have r: "setTimeRatio example_env 2 ?s = Some (?s\<lparr>cerr := cerr ?s @ [CannotSetRatio]\<rparr>)"
    by blast
  from setRatio_rejected_or_reconfigured [of example_offline example_env 2 2] h2 h3
  have t: "setTimeRatio example_env 2 example_offline
             = reconfigure example_env (example_offline\<lparr>timeRatio := 2\<rparr>)"
    and k: "\<forall>s'. setTimeRatio example_env 2 example_offline = Some s' \<longrightarrow> timeRatio s' = 2"
    by blast+
  from reconfigure_example obtain s' where
    "reconfigure example_env (example_offline\<lparr>timeRatio := 2\<rparr>) = Some s'"
    by blast
  with t have "setTimeRatio example_env 2 example_offline = Some s'" by simp
  with k have "\<exists>s'. setTimeRatio example_env 2 example_offline = Some s' \<and> timeRatio s' = 2"
    by blast
  moreover have "\<exists>s'. setPitchScale example_env 2 example_offline = Some s' \<and> pitchScale s' = 2"
  proof -
    from setRatio_rejected_or_reconfigured [of example_offline example_env 2 2] h2 h4
    have t': "setPitchScale example_env 2 example_offline
               = reconfigure example_env (example_offline\<lparr>pitchScale := 2\<rparr>)"
      and k': "\<forall>s'. setPitchScale example_env 2 example_offline = Some s' \<longrightarrow> pitchScale s' = 2"
      by blast+
    from reconfigure_example_pitch obtain s' where
      "reconfigure example_env (example_offline\<lparr>pitchScale := 2\<rparr>) = Some s'"
      by blast
    with t' have "setPitchScale example_env 2 example_offline = Some s'" by simp
    with k' show ?thesis by blast
  qed
  moreover have "mode example_offline = JustCreated" by (simp add: example_offline_def)
  moreover have "?s\<lparr>cerr := cerr ?s @ [CannotSetRatio]\<rparr>
                   = example_offline\<lparr>mode := Studying, cerr := [CannotSetRatio]\<rparr>"
    by (simp add: example_offline_def)
  ultimately show ?thesis using h1 h3 h4 r by simp
qed

text \<open>
  C10: \<open>setTimeRatio\<close> with the value that \<open>getTimeRatio\<close> returns changes no member of the
  stretcher and runs no reconfiguration, in every mode, and likewise \<open>setPitchScale\<close> with
  the current pitch scale. Outside the rejected case the state is returned as it is; in the
  rejected case (non-realtime, \<open>Studying\<close> or \<open>Processing\<close>) the only effect is the diagnostic
  on the error stream.
\<close>

theorem setRatio_same_value_noop:
  "(\<not> realtime s \<and> (mode s = Studying \<or> mode s = Processing) \<longrightarrow>
      setTimeRatio e (getTimeRatio s) s = Some (s\<lparr>cerr := cerr s @ [CannotSetRatio]\<rparr>) \<and>
      setPitchScale e (getPitchScale s) s = Some (s\<lparr>cerr := cerr s @ [CannotSetPitchScale]\<rparr>)) \<and>
   (realtime s \<or> mode s = JustCreated \<or> mode s = Finished \<longrightarrow>
      setTimeRatio e (getTimeRatio s) s = Some s \<and>
      setPitchScale e (getPitchScale s) s = Some s)"
  by (auto simp: setTimeRatio_def setPitchScale_def getTimeRatio_def getPitchScale_def)

theorem setRatio_same_value_noop_witness:
  "mode example_finished = Finished \<and>
   setTimeRatio example_env (getTimeRatio example_finished) example_finished = Some example_finished \<and>
   \<not> realtime (example_offline\<lparr>mode := Processing\<rparr>) \<and>
   mode (example_offline\<lparr>mode := Processing\<rparr>) = Processing \<and>
   setPitchScale example_env (getPitchScale (example_offline\<lparr>mode := Processing\<rparr>))
       (example_offline\<lparr>mode := Processing\<rparr>)
     = Some (example_offline\<lparr>mode := Processing, cerr := [CannotSetPitchScale]\<rparr>)"
proof -
  let ?p = "example_offline\<lparr>mode := Processing\<rparr>"
  have h1: "realtime example_finished \<or> mode example_finished = JustCreated
              \<or> mode example_finished = Finished"
    and m: "mode example_finished = Finished"
    by (simp_all add: example_finished_def example_offline_def)
  have h2: "\<not> realtime ?p \<and> (mode ?p = Studying \<or> mode ?p = Processing)"
    by (simp add: example_offline_def)
  from setRatio_same_value_noop [of example_finished example_env] h1
  have a: "setTimeRatio example_env (getTimeRatio example_finished) example_finished
             = Some example_finished"
    by blast
  from setRatio_same_value_noop [of ?p example_env] h2
  have b: "setPitchScale example_env (getPitchScale ?p) ?p
             = Some (?p\<lparr>cerr := cerr ?p @ [CannotSetPitchScale]\<rparr>)"
    by blast
  have "?p\<lparr>cerr := cerr ?p @ [CannotSetPitchScale]\<rparr>
          = example_offline\<lparr>mode := Processing, cerr := [CannotSetPitchScale]\<rparr>"
    by (simp add: example_offline_def)
  with a b m h2 show ?thesis by simp
qed

end
